theory Spec2Isabelle
  imports Main "HOL-Library.Word"
begin

section \<open>Uranus DEX client API: a shallow embedding of \<open>src/onchain-api\<close>\<close>

text \<open>
  The JavaScript sources \<open>index.js\<close> and \<open>schema.js\<close> are translated function by
  function. Every \<open>throw\<close> is a value \<open>Inl e\<close> of a sum type, every call on the
  \<open>connection\<close> object is recorded in a list of remote calls that the function returns
  beside its result, and the wall clock and the address derivation of
  \<open>@solana/web3.js\<close> are parameters of the functions that use them.
\<close>

subsection \<open>Values\<close>

type_synonym byte = "8 word"

text \<open>A \<open>PublicKey\<close> is its 32 bytes (\<open>toBytes()\<close>).\<close>

type_synonym pubkey = "byte list"

text \<open>
  A JavaScript string is the list of its code points, where a surrogate is a code point
  of its own only when it is not part of a pair. \<open>js\<close> reads an ASCII literal of the
  source.
\<close>

type_synonym jsstring = "nat list"

definition js :: "string \<Rightarrow> jsstring" where
  "js s = map of_char s"

datatype error =
    MissingRequiredParameters    \<comment> \<open>\<open>"Missing required parameters"\<close>\<close>
  | MetadataAccountValueNull     \<comment> \<open>\<open>'Metadata account value is null'\<close>\<close>
  | MarketMetadataSymbolNotFound \<comment> \<open>\<open>"Market metadata symbol not found"\<close>\<close>
  | MarketAccountNotFound        \<comment> \<open>\<open>'Market account not found'\<close>\<close>
  | BNAssertionFailed            \<comment> \<open>an \<open>assert\<close> of bn.js\<close>
  | BNNumberTooLarge             \<comment> \<open>\<open>toNumber\<close>: \<open>'Number can only safely store up to 53 bits'\<close>\<close>
  | BNByteArrayTooLong           \<comment> \<open>\<open>toArray\<close>: \<open>'byte array longer than desired length'\<close>\<close>
  | BorshArrayLength             \<comment> \<open>borsh: an array whose length is not the schema's \<open>len\<close>\<close>
  | BorshBufferTooSmall          \<comment> \<open>borsh: \<open>'Error in schema, the buffer is smaller than expected'\<close>\<close>

subsection \<open>bn.js\<close>

text \<open>
  A \<open>BN\<close> is an unbounded integer. \<open>new BN(n)\<close> on a JavaScript number asserts
  \<open>n < 0x20000000000000\<close> on the magnitude; \<open>div\<close> divides the magnitudes and
  restores the sign, that is, it truncates towards zero.
\<close>

definition BN_of_number :: "int \<Rightarrow> error + int" where
  "BN_of_number n = (if \<bar>n\<bar> < 2 ^ 53 then Inr n else Inl BNAssertionFailed)"

definition BN_div :: "int \<Rightarrow> int \<Rightarrow> int" where
  "BN_div a b = sgn a * sgn b * (\<bar>a\<bar> div \<bar>b\<bar>)"

text \<open>
  \<open>toNumber()\<close> asserts that the magnitude fits 53 bits. \<open>toArray("le", len)\<close>
  gives the \<open>len\<close> little-endian bytes of the magnitude and asserts that it fits them.
\<close>

definition BN_toNumber :: "int \<Rightarrow> error + int" where
  "BN_toNumber v = (if \<bar>v\<bar> < 2 ^ 53 then Inr v else Inl BNNumberTooLarge)"

fun le_bytes :: "nat \<Rightarrow> int \<Rightarrow> byte list" where
  "le_bytes 0 v = []"
| "le_bytes (Suc n) v = of_int (v mod 256) # le_bytes n (v div 256)"

definition BN_toArray_le :: "int \<Rightarrow> nat \<Rightarrow> error + byte list" where
  "BN_toArray_le v len =
     (if \<bar>v\<bar> < 256 ^ len then Inr (le_bytes len \<bar>v\<bar>) else Inl BNByteArrayTooLong)"

subsection \<open>The transport\<close>

text \<open>
  The methods of the \<open>connection\<close> object that the sources call. A method is a
  function of its arguments: what the remote node answers. \<open>getParsedAccountInfo\<close>
  gives the \<open>value\<close> of the answer (\<open>None\<close> for \<open>null\<close>) already read by
  \<open>deserializeMetadata\<close> of the metaplex library, of which only \<open>symbol\<close> is used.
  A remote call that is rejected by the network is not modelled.
\<close>

record metadata =
  symbol :: jsstring

record program_account =
  pubkey :: pubkey
  account_data :: "byte list"   \<comment> \<open>\<open>account.data\<close>\<close>

record account_info =
  lamports :: int

record signature_info =
  signature :: jsstring
  blockTime :: "int option"   \<comment> \<open>\<open>None\<close> is \<open>null\<close>\<close>

record connection =
  getParsedAccountInfo :: "pubkey \<Rightarrow> metadata option"
  getMinimumBalanceForRentExemption :: "nat \<Rightarrow> int"
  getLatestBlockhash :: jsstring
  getProgramAccounts :: "pubkey \<Rightarrow> program_account list"
  getAccountInfo :: "pubkey \<Rightarrow> account_info option"
  getSignaturesForAddress :: "pubkey \<Rightarrow> jsstring option \<Rightarrow> signature_info list"

datatype rpc_call =
    GetParsedAccountInfo pubkey
  | GetMinimumBalanceForRentExemption nat
  | GetLatestBlockhash
  | GetProgramAccounts pubkey
  | GetAccountInfo pubkey
  | GetSignaturesForAddress pubkey "jsstring option"

subsection \<open>\<open>schema.js\<close>: sizes\<close>

definition PositionAccountData_size :: nat where
  "PositionAccountData_size = 32 + 32 + 32 + 8 + 8 + 8 + 8 + 1 + 1 + 8 + 8 + 1"

subsection \<open>\<open>calculateFees\<close>\<close>

text \<open>
  The argument \<open>lamports\<close> is the product \<open>solAmount * LAMPORTS_PER_SOL\<close> of the
  source, taken as an integer number of lamports. \<open>baseFee\<close> and \<open>leverageFee\<close> are
  the two local constants of the function.
\<close>

record fees =
  basePaidAmount :: int
  percentageFee :: int
  accountFee :: int

definition baseFee :: "int \<Rightarrow> int" where
  "baseFee paid = BN_div (paid * 200) 10000"

definition leverageFee :: "int \<Rightarrow> int \<Rightarrow> int" where
  "leverageFee paid lev = BN_div (paid * 10 * lev) 10000"

definition calculateFees :: "int \<Rightarrow> int \<Rightarrow> connection \<Rightarrow> (error + fees) \<times> rpc_call list" where
  "calculateFees lamps lev conn =
     (case BN_of_number lamps of
        Inl e \<Rightarrow> (Inl e, [])
      | Inr paid \<Rightarrow>
          (case BN_of_number lev of
             Inl e \<Rightarrow> (Inl e, [])
           | Inr levBN \<Rightarrow>
               (let calls = [GetMinimumBalanceForRentExemption PositionAccountData_size] in
                case BN_of_number (getMinimumBalanceForRentExemption conn PositionAccountData_size) of
                  Inl e \<Rightarrow> (Inl e, calls)
                | Inr rent \<Rightarrow>
                    (Inr \<lparr>basePaidAmount = paid,
                          percentageFee = baseFee paid + leverageFee paid levBN,
                          accountFee = rent\<rparr>, calls))))"

text \<open>Lines 117 and 118 of \<open>createUranusPositionTransaction\<close>.\<close>

definition paidAmount :: "fees \<Rightarrow> int" where
  "paidAmount f = basePaidAmount f + percentageFee f + accountFee f"

definition positionSize :: "fees \<Rightarrow> int \<Rightarrow> int" where
  "positionSize f lev = (basePaidAmount f - percentageFee f - accountFee f) * lev"

subsection \<open>\<open>TextEncoder\<close> and \<open>TextDecoder\<close>\<close>

text \<open>
  \<open>new TextEncoder().encode(str)\<close> is the UTF-8 encoder of the Encoding Standard: a lone
  surrogate is written as U+FFFD, every other code point as its one to four bytes.
\<close>

definition scalar_value :: "nat \<Rightarrow> nat" where
  "scalar_value c = (if (0xD800 \<le> c \<and> c \<le> 0xDFFF) \<or> 0x10FFFF < c then 0xFFFD else c)"

definition utf8_bytes :: "nat \<Rightarrow> nat list" where
  "utf8_bytes c =
     (if c < 0x80 then [c]
      else if c < 0x800 then [0xC0 + c div 64, 0x80 + c mod 64]
      else if c < 0x10000 then [0xE0 + c div 4096, 0x80 + c div 64 mod 64, 0x80 + c mod 64]
      else [0xF0 + c div 262144, 0x80 + c div 4096 mod 64, 0x80 + c div 64 mod 64,
            0x80 + c mod 64])"

definition TextEncoder_encode :: "jsstring \<Rightarrow> byte list" where
  "TextEncoder_encode str = map of_nat (concat (map (\<lambda>c. utf8_bytes (scalar_value c)) str))"

text \<open>
  \<open>new TextDecoder().decode(bytes)\<close> is the UTF-8 decoder of the Encoding Standard in
  its default mode (\<open>fatal\<close> is false, \<open>ignoreBOM\<close> is false): a malformed sequence
  gives U+FFFD and decoding goes on, and a leading U+FEFF is dropped. The decoder's
  variables are the fields of \<open>utf8_state\<close>. On bytes, \<open>b AND 0x1F\<close> is \<open>b mod 32\<close>
  and \<open>(cp << 6) OR (b AND 0x3F)\<close> is \<open>cp * 64 + b mod 64\<close>.
\<close>

record utf8_state =
  code_point :: nat
  bytes_seen :: nat
  bytes_needed :: nat
  lower_boundary :: nat
  upper_boundary :: nat

definition utf8_initial :: utf8_state where
  "utf8_initial = \<lparr>code_point = 0, bytes_seen = 0, bytes_needed = 0,
                    lower_boundary = 0x80, upper_boundary = 0xBF\<rparr>"

text \<open>The handler when no continuation byte is awaited.\<close>

definition utf8_lead :: "nat \<Rightarrow> nat list \<times> utf8_state" where
  "utf8_lead b =
     (if b \<le> 0x7F then ([b], utf8_initial)
      else if 0xC2 \<le> b \<and> b \<le> 0xDF then
        ([], utf8_initial\<lparr>bytes_needed := 1, code_point := b mod 32\<rparr>)
      else if 0xE0 \<le> b \<and> b \<le> 0xEF then
        ([], utf8_initial\<lparr>lower_boundary := (if b = 0xE0 then 0xA0 else 0x80),
                           upper_boundary := (if b = 0xED then 0x9F else 0xBF),
                           bytes_needed := 2, code_point := b mod 16\<rparr>)
      else if 0xF0 \<le> b \<and> b \<le> 0xF4 then
        ([], utf8_initial\<lparr>lower_boundary := (if b = 0xF0 then 0x90 else 0x80),
                           upper_boundary := (if b = 0xF4 then 0x8F else 0xBF),
                           bytes_needed := 3, code_point := b mod 8\<rparr>)
      else ([0xFFFD], utf8_initial))"

text \<open>
  One byte. A byte outside the awaited range ends the sequence with U+FFFD and is then
  handled again as a first byte.
\<close>

definition utf8_handler :: "utf8_state \<Rightarrow> nat \<Rightarrow> nat list \<times> utf8_state" where
  "utf8_handler st b =
     (if bytes_needed st = 0 then utf8_lead b
      else if b < lower_boundary st \<or> upper_boundary st < b then
        (0xFFFD # fst (utf8_lead b), snd (utf8_lead b))
      else
        (let c = code_point st * 64 + b mod 64 in
         if bytes_seen st + 1 \<noteq> bytes_needed st then
           ([], st\<lparr>lower_boundary := 0x80, upper_boundary := 0xBF,
                  code_point := c, bytes_seen := bytes_seen st + 1\<rparr>)
         else ([c], utf8_initial)))"

fun utf8_run :: "utf8_state \<Rightarrow> nat list \<Rightarrow> nat list" where
  "utf8_run st [] = (if bytes_needed st \<noteq> 0 then [0xFFFD] else [])"
| "utf8_run st (b # bs) = fst (utf8_handler st b) @ utf8_run (snd (utf8_handler st b)) bs"

definition strip_bom :: "jsstring \<Rightarrow> jsstring" where
  "strip_bom s = (case s of [] \<Rightarrow> [] | c # cs \<Rightarrow> if c = 0xFEFF then cs else c # cs)"

definition TextDecoder_decode :: "byte list \<Rightarrow> jsstring" where
  "TextDecoder_decode bytes = strip_bom (utf8_run utf8_initial (map unat bytes))"

subsection \<open>Strings\<close>

text \<open>
  \<open>toLowerCase\<close> on the code points below 256 (the letters A to Z and the capital
  letters of Latin-1); other code points are left as they are. \<open>includes_str s t\<close> is
  \<open>s.includes(t)\<close>.
\<close>

definition toLowerCase_cp :: "nat \<Rightarrow> nat" where
  "toLowerCase_cp c =
     (if (0x41 \<le> c \<and> c \<le> 0x5A) \<or> (0xC0 \<le> c \<and> c \<le> 0xDE \<and> c \<noteq> 0xD7) then c + 32 else c)"

definition toLowerCase :: "jsstring \<Rightarrow> jsstring" where
  "toLowerCase s = map toLowerCase_cp s"

fun includes_str :: "jsstring \<Rightarrow> jsstring \<Rightarrow> bool" where
  "includes_str [] t = (t = [])"
| "includes_str (c # cs) t = (take (length t) (c # cs) = t \<or> includes_str cs t)"

subsection \<open>\<open>stringToFixedArray\<close>\<close>

definition stringToFixedArray :: "jsstring \<Rightarrow> nat \<Rightarrow> byte list" where
  "stringToFixedArray str len =
     (let arr = replicate len 0;
          bytes = TextEncoder_encode str;
          copyLength = min (length bytes) (len - 1)
      in fold (\<lambda>i a. a[i := bytes ! i]) [0..<copyLength] arr)"

subsection \<open>\<open>schema.js\<close> and borsh\<close>

text \<open>
  The three classes of \<open>schema.js\<close>. The fields of \<open>InitializePositionData\<close> carry the
  prefix \<open>init_\<close>, as Isabelle has one name space for the fields of all records. A
  \<open>u64\<close> field is given to borsh as a \<open>BN\<close>, \<open>leverage\<close> and \<open>direction\<close> as numbers.
\<close>

record InitializePositionData =
  init_market_mint :: "byte list"
  init_market_symbol :: "byte list"
  init_paid_amount :: int
  init_position_size :: int
  init_leverage :: int
  init_position_nonce :: int
  init_direction :: int

record ClosePositionData =
  close_position :: bool
  close_position_nonce :: int

record PositionAccountData =
  owner :: "byte list"
  market_mint :: "byte list"
  market_symbol :: "byte list"
  entry_price :: nat
  liquidation_price :: nat
  paid_amount :: nat
  position_size :: nat
  leverage :: nat
  closed :: nat
  position_nonce :: nat
  pnl :: int
  direction :: int

text \<open>
  \<open>serialize(schema, value)\<close> of borsh writes the fields in the order of the schema. An
  array of \<open>u8\<close> with a \<open>len\<close> must have that length. A \<open>u64\<close> is written by
  \<open>le_bytes 8\<close>, byte by byte from the low end (\<open>value & 0xff\<close>, then
  \<open>value >> 8\<close>), a \<open>u8\<close> or \<open>i8\<close> by \<open>setUint8\<close> or \<open>setInt8\<close>, which keep the
  low eight bits, and a \<open>bool\<close> as one byte.
\<close>

definition encode_array :: "nat \<Rightarrow> byte list \<Rightarrow> error + byte list" where
  "encode_array len v = (if length v \<noteq> len then Inl BorshArrayLength else Inr v)"

definition serialize_InitializePositionData :: "InitializePositionData \<Rightarrow> error + byte list" where
  "serialize_InitializePositionData d =
     (case encode_array 32 (init_market_mint d) of
        Inl e \<Rightarrow> Inl e
      | Inr mint_bytes \<Rightarrow>
          (case encode_array 32 (init_market_symbol d) of
             Inl e \<Rightarrow> Inl e
           | Inr symbol_bytes \<Rightarrow>
               Inr (mint_bytes @ symbol_bytes
                    @ le_bytes 8 (init_paid_amount d)
                    @ le_bytes 8 (init_position_size d)
                    @ [of_int (init_leverage d)]
                    @ le_bytes 8 (init_position_nonce d)
                    @ [of_int (init_direction d)])))"

definition serialize_ClosePositionData :: "ClosePositionData \<Rightarrow> byte list" where
  "serialize_ClosePositionData d =
     (if close_position d then 1 else 0) # le_bytes 8 (close_position_nonce d)"

text \<open>
  \<open>deserialize(schema, buffer)\<close> of borsh reads the fields in the order of the schema
  from a buffer and an offset. Each read first checks that the buffer holds the bytes it
  needs and throws otherwise; nothing checks that the buffer is used up. An array of
  \<open>u8\<close> is read element by element, which takes \<open>len\<close> bytes.
\<close>

type_synonym decode_buffer = "byte list \<times> nat"
type_synonym 'a decoder = "decode_buffer \<Rightarrow> error + ('a \<times> decode_buffer)"

definition consume_bytes :: "nat \<Rightarrow> byte list decoder" where
  "consume_bytes n db =
     (case db of (buf, off) \<Rightarrow>
        if length buf < off + n then Inl BorshBufferTooSmall
        else Inr (take n (drop off buf), (buf, off + n)))"

definition bind_dec :: "'a decoder \<Rightarrow> ('a \<Rightarrow> 'b decoder) \<Rightarrow> 'b decoder" where
  "bind_dec m f db = (case m db of Inl e \<Rightarrow> Inl e | Inr (a, db') \<Rightarrow> f a db')"

definition return_dec :: "'a \<Rightarrow> 'a decoder" where
  "return_dec a db = Inr (a, db)"

fun le_nat :: "byte list \<Rightarrow> nat" where
  "le_nat [] = 0"
| "le_nat (b # bs) = unat b + 256 * le_nat bs"

definition decode_unsigned :: "nat \<Rightarrow> nat decoder" where
  "decode_unsigned n = bind_dec (consume_bytes n) (\<lambda>bs. return_dec (le_nat bs))"

text \<open>The value of \<open>n\<close> bytes read as a two's complement number.\<close>

definition signed_of :: "nat \<Rightarrow> nat \<Rightarrow> int" where
  "signed_of n v = (if 2 ^ (8 * n - 1) \<le> v then int v - 2 ^ (8 * n) else int v)"

definition decode_signed :: "nat \<Rightarrow> int decoder" where
  "decode_signed n = bind_dec (consume_bytes n) (\<lambda>bs. return_dec (signed_of n (le_nat bs)))"

definition decode_PositionAccountData :: "PositionAccountData decoder" where
  "decode_PositionAccountData =
     bind_dec (consume_bytes 32) (\<lambda>f_owner.
     bind_dec (consume_bytes 32) (\<lambda>f_market_mint.
     bind_dec (consume_bytes 32) (\<lambda>f_market_symbol.
     bind_dec (decode_unsigned 8) (\<lambda>f_entry_price.
     bind_dec (decode_unsigned 8) (\<lambda>f_liquidation_price.
     bind_dec (decode_unsigned 8) (\<lambda>f_paid_amount.
     bind_dec (decode_unsigned 8) (\<lambda>f_position_size.
     bind_dec (decode_unsigned 1) (\<lambda>f_leverage.
     bind_dec (decode_unsigned 1) (\<lambda>f_closed.
     bind_dec (decode_unsigned 8) (\<lambda>f_position_nonce.
     bind_dec (decode_signed 8) (\<lambda>f_pnl.
     bind_dec (decode_signed 1) (\<lambda>f_direction.
     return_dec \<lparr>owner = f_owner, market_mint = f_market_mint,
                 market_symbol = f_market_symbol, entry_price = f_entry_price,
                 liquidation_price = f_liquidation_price, paid_amount = f_paid_amount,
                 position_size = f_position_size, leverage = f_leverage,
                 closed = f_closed, position_nonce = f_position_nonce,
                 pnl = f_pnl, direction = f_direction\<rparr>))))))))))))"

definition deserialize_PositionAccountData :: "byte list \<Rightarrow> error + PositionAccountData" where
  "deserialize_PositionAccountData buf =
     (case decode_PositionAccountData (buf, 0) of Inl e \<Rightarrow> Inl e | Inr (v, db) \<Rightarrow> Inr v)"

subsection \<open>\<open>deserializePositionAccount\<close>\<close>

text \<open>
  The object that \<open>deserializePositionAccount\<close> builds; its fields carry the prefix
  \<open>pos_\<close>. The amounts are kept as the integers that borsh read: the conversion
  \<open>Number(x) / LAMPORTS_PER_SOL\<close> to a floating-point number of SOL is left out, and
  \<open>pos_position_nonce\<close> is the integer before \<open>Number\<close>.
\<close>

record positionAccount =
  pos_owner :: pubkey
  pos_market_mint :: pubkey
  pos_market_symbol :: jsstring
  pos_entry_price :: nat
  pos_liquidation_price :: nat
  pos_paid_amount :: nat
  pos_position_size :: nat
  pos_leverage :: nat
  pos_closed :: nat
  pos_position_nonce :: nat
  pos_direction :: jsstring

text \<open>\<open>symbol_text arr\<close> is \<open>new TextDecoder().decode(new Uint8Array(arr)).replace(/\0/g, '')\<close>.\<close>

definition symbol_text :: "byte list \<Rightarrow> jsstring" where
  "symbol_text arr = filter (\<lambda>c. c \<noteq> 0) (TextDecoder_decode arr)"

text \<open>The object literal of lines 225 to 237.\<close>

definition positionAccount_of :: "PositionAccountData \<Rightarrow> positionAccount" where
  "positionAccount_of deserialized =
     \<lparr>pos_owner = owner deserialized,
      pos_market_mint = market_mint deserialized,
      pos_market_symbol = symbol_text (market_symbol deserialized),
      pos_entry_price = entry_price deserialized,
      pos_liquidation_price = liquidation_price deserialized,
      pos_paid_amount = paid_amount deserialized,
      pos_position_size = position_size deserialized,
      pos_leverage = leverage deserialized,
      pos_closed = closed deserialized,
      pos_position_nonce = position_nonce deserialized,
      pos_direction = (if direction deserialized = 1 then js ''LONG'' else js ''SHORT'')\<rparr>"

definition deserializePositionAccount :: "byte list \<Rightarrow> error + positionAccount" where
  "deserializePositionAccount buf =
     (case deserialize_PositionAccountData buf of
        Inl e \<Rightarrow> Inl e
      | Inr deserialized \<Rightarrow> Inr (positionAccount_of deserialized))"

subsection \<open>Addresses\<close>

text \<open>The base58 constants of \<open>index.js\<close>, as the 32 bytes they stand for.\<close>

definition PROGRAM_ID :: pubkey where
  "PROGRAM_ID = [7, 6, 1, 90, 240, 145, 184, 249, 6, 224, 124, 214, 198, 44, 160, 135,
                 127, 216, 191, 145, 108, 171, 217, 22, 212, 95, 156, 99, 176, 90, 126, 62]"

definition DEX_PUBKEY :: pubkey where
  "DEX_PUBKEY = [7, 6, 1, 128, 133, 177, 96, 68, 86, 98, 42, 15, 215, 212, 90, 100,
                 234, 91, 160, 87, 106, 141, 74, 150, 142, 33, 210, 159, 171, 193, 148, 212]"

definition DEX_FEES_PUBKEY :: pubkey where
  "DEX_FEES_PUBKEY = [7, 6, 1, 214, 30, 84, 128, 133, 74, 148, 244, 114, 254, 0, 85, 245,
                      165, 187, 86, 20, 244, 70, 247, 10, 169, 67, 100, 2, 253, 185, 248, 204]"

definition METADATA_PROGRAM_ID :: pubkey where
  "METADATA_PROGRAM_ID = [11, 112, 101, 177, 227, 209, 124, 69, 56, 157, 82, 127, 107, 4,
                          195, 205, 88, 184, 108, 115, 26, 160, 253, 181, 73, 182, 209, 188,
                          3, 248, 41, 70]"

definition SystemProgram_programId :: pubkey where
  "SystemProgram_programId = replicate 32 0"

text \<open>
  \<open>PublicKey.findProgramAddressSync(seeds, programId)\<close> of \<open>@solana/web3.js\<close> is a
  parameter: a function of the seeds and the program, of which the first component, the
  address, is used. Every seed given to it here is at most 32 bytes long.
\<close>

type_synonym derivation = "byte list list \<Rightarrow> pubkey \<Rightarrow> pubkey"

definition getMetadataPDA :: "derivation \<Rightarrow> pubkey \<Rightarrow> pubkey" where
  "getMetadataPDA findProgramAddressSync mint =
     findProgramAddressSync
       [TextEncoder_encode (js ''metadata''), METADATA_PROGRAM_ID, mint]
       METADATA_PROGRAM_ID"

text \<open>
  \<open>getMetadata\<close> throws when the \<open>value\<close> of the answer is \<open>null\<close>. Its test
  \<open>!metadataAccount\<close>, and the test \<open>!marketMetadata\<close> of the caller, are on objects
  that the calls before them always return, so neither has a branch here.
\<close>

definition getMetadata :: "connection \<Rightarrow> pubkey \<Rightarrow> error + metadata" where
  "getMetadata conn pda =
     (case getParsedAccountInfo conn pda of
        None \<Rightarrow> Inl MetadataAccountValueNull
      | Some md \<Rightarrow> Inr md)"

definition getMarketAccount :: "derivation \<Rightarrow> pubkey \<Rightarrow> pubkey" where
  "getMarketAccount findProgramAddressSync mint =
     findProgramAddressSync
       [TextEncoder_encode (js ''uranus_market''), mint, TextEncoder_encode (js ''v1'')]
       PROGRAM_ID"

text \<open>The seeds of a position address, as both builders write them.\<close>

definition position_seeds :: "pubkey \<Rightarrow> byte list \<Rightarrow> byte list list" where
  "position_seeds own nonce_bytes =
     [TextEncoder_encode (js ''uranus_position''), own, nonce_bytes]"

subsection \<open>Instructions and transactions\<close>

record account_meta =
  meta_pubkey :: pubkey
  isSigner :: bool
  isWritable :: bool

record instruction =
  programId :: pubkey
  keys :: "account_meta list"
  data :: "byte list"

record transaction =
  instructions :: "instruction list"
  feePayer :: pubkey
  recentBlockhash :: jsstring

subsection \<open>\<open>createUranusPositionTransaction\<close>\<close>

text \<open>
  The object returned. \<open>fees\<close> and \<open>totalCost\<close> are kept in lamports: the source
  divides both by \<open>LAMPORTS_PER_SOL\<close> in floating point.
\<close>

record open_position =
  open_transaction :: transaction
  positionNonce :: int
  positionPda :: pubkey
  open_fees :: int
  totalCost :: int

text \<open>Line 139: \<open>direction.toLowerCase() === "long" ? 1 : -1\<close>.\<close>

definition direction_code :: "jsstring \<Rightarrow> int" where
  "direction_code dir = (if toLowerCase dir = js ''long'' then 1 else - 1)"

text \<open>Lines 143 to 159: the discriminator byte 0, the payload and the seven accounts.\<close>

definition open_instruction :: "pubkey \<Rightarrow> pubkey \<Rightarrow> pubkey \<Rightarrow> byte list \<Rightarrow> instruction" where
  "open_instruction own positionPda_key marketPda serializedData =
     \<lparr>programId = PROGRAM_ID,
      keys = [\<lparr>meta_pubkey = own, isSigner = True, isWritable = True\<rparr>,
              \<lparr>meta_pubkey = own, isSigner = False, isWritable = False\<rparr>,
              \<lparr>meta_pubkey = positionPda_key, isSigner = False, isWritable = True\<rparr>,
              \<lparr>meta_pubkey = marketPda, isSigner = False, isWritable = True\<rparr>,
              \<lparr>meta_pubkey = DEX_PUBKEY, isSigner = False, isWritable = True\<rparr>,
              \<lparr>meta_pubkey = DEX_FEES_PUBKEY, isSigner = False, isWritable = True\<rparr>,
              \<lparr>meta_pubkey = SystemProgram_programId, isSigner = False, isWritable = False\<rparr>],
      data = 0 # serializedData\<rparr>"

text \<open>
  The arguments: the derivation function, the reading \<open>now\<close> of \<open>Date.now()\<close>, the
  connection, \<open>owner\<close> and \<open>mint\<close> (\<open>None\<close> for \<open>null\<close> or \<open>undefined\<close>), the amount
  in lamports (\<open>solAmount * LAMPORTS_PER_SOL\<close>, which is 0 exactly when \<open>solAmount\<close>
  is), the leverage and the direction string. The result comes with the remote calls made,
  in order.
\<close>

definition createUranusPositionTransaction ::
  "derivation \<Rightarrow> int \<Rightarrow> connection \<Rightarrow> pubkey option \<Rightarrow> pubkey option \<Rightarrow> int \<Rightarrow> int \<Rightarrow> jsstring
     \<Rightarrow> (error + open_position) \<times> rpc_call list" where
  "createUranusPositionTransaction findProgramAddressSync now conn own_opt mint_opt lamps lev dir =
     (case (own_opt, mint_opt) of
        (Some own, Some mint) \<Rightarrow>
          if lamps = 0 \<or> lev = 0 \<or> dir = [] then (Inl MissingRequiredParameters, [])
          else
            (let metadataPDA = getMetadataPDA findProgramAddressSync mint;
                 calls1 = [GetParsedAccountInfo metadataPDA]
             in case getMetadata conn metadataPDA of
                  Inl e \<Rightarrow> (Inl e, calls1)
                | Inr marketMetadata \<Rightarrow>
                    if symbol marketMetadata = [] then (Inl MarketMetadataSymbolNotFound, calls1)
                    else
                      (case calculateFees lamps lev conn of
                         (Inl e, calls2) \<Rightarrow> (Inl e, calls1 @ calls2)
                       | (Inr f, calls2) \<Rightarrow>
                           (case BN_of_number now of
                              Inl e \<Rightarrow> (Inl e, calls1 @ calls2)
                            | Inr nonce \<Rightarrow>
                                (case BN_toArray_le nonce 8 of
                                   Inl e \<Rightarrow> (Inl e, calls1 @ calls2)
                                 | Inr nonce_bytes \<Rightarrow>
                                     (let pda = findProgramAddressSync
                                                  (position_seeds own nonce_bytes) PROGRAM_ID
                                      in case serialize_InitializePositionData
                                                \<lparr>init_market_mint = mint,
                                                 init_market_symbol =
                                                   stringToFixedArray (symbol marketMetadata) 32,
                                                 init_paid_amount = paidAmount f,
                                                 init_position_size = positionSize f lev,
                                                 init_leverage = lev,
                                                 init_position_nonce = nonce,
                                                 init_direction = direction_code dir\<rparr> of
                                           Inl e \<Rightarrow> (Inl e, calls1 @ calls2)
                                         | Inr serializedData \<Rightarrow>
                                             (let ix = open_instruction own pda
                                                         (getMarketAccount findProgramAddressSync mint)
                                                         serializedData;
                                                  tx = \<lparr>instructions = [ix], feePayer = own,
                                                        recentBlockhash = getLatestBlockhash conn\<rparr>;
                                                  calls3 = calls1 @ calls2 @ [GetLatestBlockhash]
                                              in case BN_toNumber nonce of
                                                   Inl e \<Rightarrow> (Inl e, calls3)
                                                 | Inr nonce_number \<Rightarrow>
                                                     (case BN_toNumber (percentageFee f + accountFee f) of
                                                        Inl e \<Rightarrow> (Inl e, calls3)
                                                      | Inr fee_number \<Rightarrow>
                                                          (case BN_toNumber (paidAmount f) of
                                                             Inl e \<Rightarrow> (Inl e, calls3)
                                                           | Inr cost_number \<Rightarrow>
                                                               (Inr \<lparr>open_transaction = tx,
                                                                     positionNonce = nonce_number,
                                                                     positionPda = pda,
                                                                     open_fees = fee_number,
                                                                     totalCost = cost_number\<rparr>,
                                                                calls3)))))))))
      | _ \<Rightarrow> (Inl MissingRequiredParameters, []))"

subsection \<open>\<open>closeUranusPosition\<close>\<close>

definition close_instruction :: "pubkey \<Rightarrow> pubkey \<Rightarrow> byte list \<Rightarrow> instruction" where
  "close_instruction positionPda_key own serializedData =
     \<lparr>programId = PROGRAM_ID,
      keys = [\<lparr>meta_pubkey = positionPda_key, isSigner = False, isWritable = True\<rparr>,
              \<lparr>meta_pubkey = own, isSigner = True, isWritable = True\<rparr>],
      data = 2 # serializedData\<rparr>"

text \<open>
  The arguments: the derivation function, the connection (an object, hence never falsy),
  the nonce as a JavaScript number, \<open>owner\<close> and the optional \<open>positionPda\<close>.
\<close>

definition closeUranusPosition ::
  "derivation \<Rightarrow> connection \<Rightarrow> int \<Rightarrow> pubkey option \<Rightarrow> pubkey option
     \<Rightarrow> (error + transaction) \<times> rpc_call list" where
  "closeUranusPosition findProgramAddressSync conn nonce_number own_opt pda_opt =
     (case own_opt of
        None \<Rightarrow> (Inl MissingRequiredParameters, [])
      | Some own \<Rightarrow>
          if nonce_number = 0 then (Inl MissingRequiredParameters, [])
          else
            (case BN_of_number nonce_number of
               Inl e \<Rightarrow> (Inl e, [])
             | Inr positionNonceBN \<Rightarrow>
                 (case (case pda_opt of
                          Some pda \<Rightarrow> Inr pda
                        | None \<Rightarrow>
                            (case BN_toArray_le positionNonceBN 8 of
                               Inl e \<Rightarrow> Inl e
                             | Inr nonce_bytes \<Rightarrow>
                                 Inr (findProgramAddressSync
                                        (position_seeds own nonce_bytes) PROGRAM_ID))) of
                    Inl e \<Rightarrow> (Inl e, [])
                  | Inr pda \<Rightarrow>
                      (let serializedData = serialize_ClosePositionData
                             \<lparr>close_position = True, close_position_nonce = positionNonceBN\<rparr>
                       in (Inr \<lparr>instructions = [close_instruction pda own serializedData],
                                feePayer = own,
                                recentBlockhash = getLatestBlockhash conn\<rparr>,
                           [GetLatestBlockhash])))))"

subsection \<open>\<open>getOpenPositions\<close>\<close>

text \<open>\<open>map\<close> with a callback that may throw: the first exception ends it.\<close>

fun map_throwing :: "('a \<Rightarrow> error + 'b) \<Rightarrow> 'a list \<Rightarrow> error + 'b list" where
  "map_throwing f [] = Inr []"
| "map_throwing f (x # xs) =
     (case f x of
        Inl e \<Rightarrow> Inl e
      | Inr y \<Rightarrow> (case map_throwing f xs of Inl e \<Rightarrow> Inl e | Inr ys \<Rightarrow> Inr (y # ys)))"

text \<open>
  The three branches of lines 253 to 261. An argument is \<open>None\<close> for \<open>null\<close>; a ticker
  is also falsy when it is the empty string. Two keys have the same \<open>toBase58()\<close>
  exactly when they have the same bytes.
\<close>

definition truthy_str :: "jsstring option \<Rightarrow> bool" where
  "truthy_str t = (case t of None \<Rightarrow> False | Some s \<Rightarrow> s \<noteq> [])"

definition apply_filters ::
  "pubkey option \<Rightarrow> pubkey option \<Rightarrow> jsstring option \<Rightarrow> positionAccount list \<Rightarrow> positionAccount list" where
  "apply_filters own_opt mint_opt ticker ps =
     (if own_opt \<noteq> None \<and> mint_opt = None \<and> \<not> truthy_str ticker then
        filter (\<lambda>pos. pos_owner pos = the own_opt) ps
      else if own_opt = None \<and> mint_opt \<noteq> None \<and> \<not> truthy_str ticker then
        filter (\<lambda>pos. pos_market_mint pos = the mint_opt) ps
      else if own_opt = None \<and> mint_opt = None \<and> truthy_str ticker then
        filter (\<lambda>pos. includes_str (toLowerCase (pos_market_symbol pos))
                                    (toLowerCase (the ticker))) ps
      else ps)"

definition getOpenPositions ::
  "connection \<Rightarrow> pubkey option \<Rightarrow> pubkey option \<Rightarrow> jsstring option
     \<Rightarrow> (error + positionAccount list) \<times> rpc_call list" where
  "getOpenPositions conn own_opt mint_opt ticker =
     (let accounts = getProgramAccounts conn PROGRAM_ID;
          validAccounts = filter (\<lambda>a. length (account_data a) \<noteq> 0) accounts
      in (case map_throwing (\<lambda>a. deserializePositionAccount (account_data a)) validAccounts of
            Inl e \<Rightarrow> Inl e
          | Inr deserializedAccounts \<Rightarrow>
              Inr (apply_filters own_opt mint_opt ticker deserializedAccounts),
          [GetProgramAccounts PROGRAM_ID]))"

subsection \<open>\<open>getMarketLiquidity\<close> and \<open>getAllMarkets\<close>\<close>

text \<open>The liquidity is in lamports; \<open>lamportsToSOL\<close> divides it in floating point.\<close>

definition getMarketLiquidity ::
  "derivation \<Rightarrow> connection \<Rightarrow> pubkey \<Rightarrow> (error + int) \<times> rpc_call list" where
  "getMarketLiquidity findProgramAddressSync conn mint =
     (let marketAccount = getMarketAccount findProgramAddressSync mint
      in (case getAccountInfo conn marketAccount of
            None \<Rightarrow> Inl MarketAccountNotFound
          | Some accountInfo \<Rightarrow> Inr (lamports accountInfo),
          [GetAccountInfo marketAccount]))"

text \<open>
  \<open>market_account\<close> is the key whose \<open>toBase58()\<close> the source returns, and
  \<open>liquidity\<close> is in lamports: the source divides it by \<open>LAMPORTS_PER_SOL\<close> in
  floating point.
\<close>

record market =
  market_account :: pubkey
  liquidity :: int

definition getAllMarkets :: "connection \<Rightarrow> market list \<times> rpc_call list" where
  "getAllMarkets conn =
     (let accounts = getProgramAccounts conn PROGRAM_ID;
          validAccounts = filter (\<lambda>a. length (account_data a) = 0) accounts
      in (map (\<lambda>a. \<lparr>market_account = pubkey a,
                     liquidity = (case getAccountInfo conn (pubkey a) of
                                    None \<Rightarrow> 0
                                  | Some info \<Rightarrow> lamports info)\<rparr>) validAccounts,
          GetProgramAccounts PROGRAM_ID # map (\<lambda>a. GetAccountInfo (pubkey a)) validAccounts))"

subsection \<open>\<open>getAllSignaturesForMarket\<close>\<close>

text \<open>
  \<open>sig.blockTime >= cutoffTime\<close>: a \<open>null\<close> block time compares as 0.
\<close>

definition blockTime_number :: "signature_info \<Rightarrow> int" where
  "blockTime_number sg = (case blockTime sg of None \<Rightarrow> 0 | Some t \<Rightarrow> t)"

text \<open>
  The \<open>for\<close> loop of lines 314 to 321 over one page: the signatures pushed and
  \<open>reachedCutoff\<close>.
\<close>

fun scan_page :: "int \<Rightarrow> signature_info list \<Rightarrow> signature_info list \<times> bool" where
  "scan_page cutoffTime [] = ([], False)"
| "scan_page cutoffTime (sg # sgs) =
     (if cutoffTime \<le> blockTime_number sg
      then (sg # fst (scan_page cutoffTime sgs), snd (scan_page cutoffTime sgs))
      else ([], True))"

text \<open>
  The \<open>while (true)\<close> loop, which need not end: \<open>None\<close> stands for a loop that runs
  forever. The state is \<open>before\<close>, \<open>allSignatures\<close> and the remote calls made so far.
  \<open>options.before\<close> is set only when \<open>before\<close> is truthy.
\<close>

partial_function (option) signatures_loop ::
  "connection \<Rightarrow> pubkey \<Rightarrow> int \<Rightarrow> jsstring option \<Rightarrow> signature_info list \<Rightarrow> rpc_call list
     \<Rightarrow> (signature_info list \<times> rpc_call list) option" where
  "signatures_loop conn marketAccount cutoffTime before allSignatures calls =
     (let options_before = (if truthy_str before then before else None);
          signatures = getSignaturesForAddress conn marketAccount options_before;
          calls' = calls @ [GetSignaturesForAddress marketAccount options_before];
          allSignatures' = allSignatures @ fst (scan_page cutoffTime signatures);
          reachedCutoff = snd (scan_page cutoffTime signatures)
      in if reachedCutoff \<or> length signatures < 100 then Some (allSignatures', calls')
         else signatures_loop conn marketAccount cutoffTime
                (Some (signature (last signatures))) allSignatures' calls')"

text \<open>
  \<open>now\<close> is the reading of \<open>Date.now()\<close> in milliseconds and \<open>maxTimeSpan\<close> a whole
  number of hours.
\<close>

definition cutoff_time :: "int \<Rightarrow> int \<Rightarrow> int" where
  "cutoff_time now maxTimeSpan = now div 1000 - maxTimeSpan * 60 * 60"

definition getAllSignaturesForMarket ::
  "derivation \<Rightarrow> int \<Rightarrow> connection \<Rightarrow> pubkey \<Rightarrow> int \<Rightarrow> bool
     \<Rightarrow> (signature_info list \<times> rpc_call list) option" where
  "getAllSignaturesForMarket findProgramAddressSync now conn marketMint maxTimeSpan marketMintIsPDA =
     (let marketAccount = (if \<not> marketMintIsPDA
                           then getMarketAccount findProgramAddressSync marketMint
                           else marketMint)
      in signatures_loop conn marketAccount (cutoff_time now maxTimeSpan) None [] [])"

subsection \<open>The value of a successful \<open>createUranusPositionTransaction\<close>\<close>

text \<open>
  The bytes that follow the discriminator, and the object returned, written out once for
  the statements below.
\<close>

definition open_payload :: "pubkey \<Rightarrow> jsstring \<Rightarrow> fees \<Rightarrow> int \<Rightarrow> int \<Rightarrow> jsstring \<Rightarrow> byte list" where
  "open_payload mint smb f lev nonce dir =
     mint @ stringToFixedArray smb 32 @ le_bytes 8 (paidAmount f) @ le_bytes 8 (positionSize f lev)
     @ [of_int lev] @ le_bytes 8 nonce @ [of_int (direction_code dir)]"

definition open_value ::
  "derivation \<Rightarrow> int \<Rightarrow> connection \<Rightarrow> pubkey \<Rightarrow> pubkey \<Rightarrow> jsstring \<Rightarrow> fees \<Rightarrow> int \<Rightarrow> jsstring
     \<Rightarrow> open_position" where
  "open_value fpa now conn own mint smb f lev dir =
     \<lparr>open_transaction =
        \<lparr>instructions =
           [open_instruction own (fpa (position_seeds own (le_bytes 8 \<bar>now\<bar>)) PROGRAM_ID)
              (getMarketAccount fpa mint) (open_payload mint smb f lev now dir)],
         feePayer = own, recentBlockhash = getLatestBlockhash conn\<rparr>,
      positionNonce = now,
      positionPda = fpa (position_seeds own (le_bytes 8 \<bar>now\<bar>)) PROGRAM_ID,
      open_fees = percentageFee f + accountFee f,
      totalCost = paidAmount f\<rparr>"

subsection \<open>The layout of a position account\<close>

text \<open>
  The fields of \<open>PositionAccountData.schema\<close> at their offsets in a buffer, for the
  statements below: what the reads of \<open>decode_PositionAccountData\<close> give on a buffer
  that is long enough.
\<close>

definition PositionAccountData_at :: "byte list \<Rightarrow> PositionAccountData" where
  "PositionAccountData_at buf =
     \<lparr>owner = take 32 buf,
      market_mint = take 32 (drop 32 buf),
      market_symbol = take 32 (drop 64 buf),
      entry_price = le_nat (take 8 (drop 96 buf)),
      liquidation_price = le_nat (take 8 (drop 104 buf)),
      paid_amount = le_nat (take 8 (drop 112 buf)),
      position_size = le_nat (take 8 (drop 120 buf)),
      leverage = le_nat (take 1 (drop 128 buf)),
      closed = le_nat (take 1 (drop 129 buf)),
      position_nonce = le_nat (take 8 (drop 130 buf)),
      pnl = signed_of 8 (le_nat (take 8 (drop 138 buf))),
      direction = signed_of 1 (le_nat (take 1 (drop 146 buf)))\<rparr>"

subsection \<open>Notions of the specification\<close>

text \<open>
  A Unicode scalar value: a code point that is not a surrogate. A string of scalar
  values is what a well-formed JavaScript string stands for.
\<close>

definition is_scalar_value :: "nat \<Rightarrow> bool" where
  "is_scalar_value c = (c < 0x110000 \<and> \<not> (0xD800 \<le> c \<and> c \<le> 0xDFFF))"

text \<open>
  Two strings are equal up to the case of the letters A to Z.
\<close>

definition ascii_caseless_eq :: "jsstring \<Rightarrow> jsstring \<Rightarrow> bool" where
  "ascii_caseless_eq s t =
     list_all2 (\<lambda>c d. c = d \<or> (0x41 \<le> c \<and> c \<le> 0x5A \<and> d = c + 32)
                            \<or> (0x41 \<le> d \<and> d \<le> 0x5A \<and> c = d + 32)) s t"

text \<open>The entries of a page are ordered from the newest to the oldest.\<close>

definition newest_first :: "signature_info list \<Rightarrow> bool" where
  "newest_first page = sorted_wrt (\<lambda>a b. blockTime_number b \<le> blockTime_number a) page"

subsection \<open>Example inputs\<close>

text \<open>
  A stand-in for the address derivation that depends on every seed, two keys, and a
  node that knows one token, with the symbol SOL, and asks 1858320 lamports of rent.
\<close>

definition demo_derivation :: derivation where
  "demo_derivation seeds program = take 32 (rev (concat seeds) @ program)"

definition demo_key :: "byte \<Rightarrow> pubkey" where
  "demo_key b = replicate 32 b"

definition demo_connection :: connection where
  "demo_connection =
     \<lparr>getParsedAccountInfo = (\<lambda>k. Some \<lparr>symbol = js ''SOL''\<rparr>),
      getMinimumBalanceForRentExemption = (\<lambda>n. 1858320),
      getLatestBlockhash = js ''blockhash'',
      getProgramAccounts = (\<lambda>k. []),
      getAccountInfo = (\<lambda>k. None),
      getSignaturesForAddress = (\<lambda>k b. [])\<rparr>"

text \<open>
  Nodes whose program owns one account of 139 zero bytes, one account of 148 zero
  bytes beside an empty one, and two position accounts of different owners and mints.
\<close>

definition short_connection :: connection where
  "short_connection =
     demo_connection\<lparr>getProgramAccounts :=
       (\<lambda>k. [\<lparr>pubkey = demo_key 9, account_data = replicate 139 0\<rparr>])\<rparr>"

definition long_connection :: connection where
  "long_connection =
     demo_connection\<lparr>getProgramAccounts :=
       (\<lambda>k. [\<lparr>pubkey = demo_key 9, account_data = replicate 148 0\<rparr>,
              \<lparr>pubkey = demo_key 7, account_data = []\<rparr>])\<rparr>"

definition two_connection :: connection where
  "two_connection =
     demo_connection\<lparr>getProgramAccounts :=
       (\<lambda>k. [\<lparr>pubkey = demo_key 8, account_data = demo_key 1 @ demo_key 2 @ replicate 83 0\<rparr>,
              \<lparr>pubkey = demo_key 9, account_data = demo_key 3 @ demo_key 4 @ replicate 83 0\<rparr>])\<rparr>"


text \<open>
  A node with a history of three pages of signatures: two full pages, then a page of
  three. With the clock at 10000 seconds and a window of two hours the cutoff is 2800.
\<close>

definition page_of :: "string \<Rightarrow> int \<Rightarrow> nat \<Rightarrow> signature_info list" where
  "page_of name t n = replicate n \<lparr>signature = js name, blockTime = Some t\<rparr>"

definition paged_connection :: connection where
  "paged_connection =
     demo_connection\<lparr>getSignaturesForAddress :=
       (\<lambda>k before.
          if before = None then page_of ''a'' 5000 100
          else if before = Some (js ''a'') then page_of ''b'' 4000 100
          else if before = Some (js ''b'')
            then page_of ''c'' 3000 1 @ page_of ''d'' 1000 1 @ page_of ''e'' 900 1
          else [])\<rparr>"

section \<open>Properties\<close>

subsection \<open>Auxiliary facts\<close>

lemma BN_div_nonneg: "0 \<le> a \<Longrightarrow> 0 < b \<Longrightarrow> BN_div a b = a div b"
  by (cases "a = 0") (simp_all add: BN_div_def)

lemma fold_copy:
  "n \<le> length bs \<Longrightarrow> n \<le> length arr \<Longrightarrow>
   fold (\<lambda>i a. a[i := bs ! i]) [0..<n] arr = take n bs @ drop n arr"
proof (induction n)
  case 0
  then show ?case by simp
next
  case (Suc n)
  then have "fold (\<lambda>i a. a[i := bs ! i]) [0..<Suc n] arr = (take n bs @ drop n arr)[n := bs ! n]"
    by simp
  also have "\<dots> = take n bs @ (drop n arr)[0 := bs ! n]"
    using Suc.prems by (simp add: list_update_append)
  also have "\<dots> = take n bs @ bs ! n # drop (Suc n) arr"
    using Suc.prems Cons_nth_drop_Suc [of n arr, symmetric] by simp
  also have "\<dots> = take (Suc n) bs @ drop (Suc n) arr"
    using Suc.prems by (simp add: take_Suc_conv_app_nth)
  finally show ?case .
qed

lemma stringToFixedArray_eq:
  "stringToFixedArray str len =
     take (len - 1) (TextEncoder_encode str)
     @ replicate (len - min (length (TextEncoder_encode str)) (len - 1)) 0"
  by (simp add: stringToFixedArray_def Let_def fold_copy min_def)

lemma length_stringToFixedArray: "length (stringToFixedArray str len) = len"
  by (simp add: stringToFixedArray_eq)

lemma length_le_bytes: "length (le_bytes n v) = n"
  by (induction n arbitrary: v) simp_all

lemma create_Inr:
  assumes "createUranusPositionTransaction fpa now conn own_opt mint_opt lamps lev dir = (Inr r, calls)"
  shows "\<exists>own mint md f calls2. own_opt = Some own \<and> mint_opt = Some mint \<and> lamps \<noteq> 0 \<and> lev \<noteq> 0
     \<and> dir \<noteq> [] \<and> getParsedAccountInfo conn (getMetadataPDA fpa mint) = Some md
     \<and> symbol md \<noteq> [] \<and> calculateFees lamps lev conn = (Inr f, calls2)
     \<and> \<bar>now\<bar> < 2 ^ 53 \<and> length mint = 32
     \<and> r = open_value fpa now conn own mint (symbol md) f lev dir
     \<and> calls = GetParsedAccountInfo (getMetadataPDA fpa mint) # calls2 @ [GetLatestBlockhash]"
  using assms
  unfolding createUranusPositionTransaction_def getMetadata_def BN_of_number_def BN_toArray_le_def
    BN_toNumber_def serialize_InitializePositionData_def encode_array_def open_value_def open_payload_def
  by (auto simp: Let_def length_stringToFixedArray split: option.splits sum.splits prod.splits if_splits)

lemma create_success:
  assumes "lamps \<noteq> 0" "lev \<noteq> 0" "dir \<noteq> []"
    and "getParsedAccountInfo conn (getMetadataPDA fpa mint) = Some md" "symbol md \<noteq> []"
    and "calculateFees lamps lev conn = (Inr f, calls2)"
    and "\<bar>now\<bar> < 2 ^ 53" "length mint = 32"
    and "\<bar>percentageFee f + accountFee f\<bar> < 2 ^ 53" "\<bar>paidAmount f\<bar> < 2 ^ 53"
  shows "createUranusPositionTransaction fpa now conn (Some own) (Some mint) lamps lev dir =
           (Inr (open_value fpa now conn own mint (symbol md) f lev dir),
            GetParsedAccountInfo (getMetadataPDA fpa mint) # calls2 @ [GetLatestBlockhash])"
proof -
  have "\<bar>now\<bar> < 256 ^ 8" using assms(7) by simp
  then show ?thesis
    using assms
    unfolding createUranusPositionTransaction_def getMetadata_def BN_of_number_def BN_toArray_le_def
      BN_toNumber_def serialize_InitializePositionData_def encode_array_def open_value_def
      open_payload_def
    by (simp add: Let_def length_stringToFixedArray)
qed

lemma toLowerCase_long: "toLowerCase dir = js ''long'' \<longleftrightarrow> ascii_caseless_eq dir (js ''long'')"
proof -
  have cp: "\<And>c d. d \<in> set (js ''long'') \<Longrightarrow>
      toLowerCase_cp c = d \<longleftrightarrow> (c = d \<or> (0x41 \<le> c \<and> c \<le> 0x5A \<and> d = c + 32)
                            \<or> (0x41 \<le> d \<and> d \<le> 0x5A \<and> c = d + 32))"
    by (auto simp: toLowerCase_cp_def js_def)
  have "toLowerCase dir = js ''long'' \<longleftrightarrow> list_all2 (=) (map toLowerCase_cp dir) (js ''long'')"
    by (simp add: toLowerCase_def list_all2_eq)
  also have "\<dots> \<longleftrightarrow> list_all2 (\<lambda>c d. toLowerCase_cp c = d) dir (js ''long'')"
    by (simp add: list.rel_map(1))
  also have "\<dots> \<longleftrightarrow> ascii_caseless_eq dir (js ''long'')"
    unfolding ascii_caseless_eq_def
    by (rule list.rel_cong) (simp_all add: cp)
  finally show ?thesis .
qed

lemma create_dir_only:
  "dir \<noteq> [] \<Longrightarrow> dir' \<noteq> [] \<Longrightarrow> direction_code dir = direction_code dir' \<Longrightarrow>
   createUranusPositionTransaction fpa now conn own_opt mint_opt lamps lev dir =
   createUranusPositionTransaction fpa now conn own_opt mint_opt lamps lev dir'"
  by (simp add: createUranusPositionTransaction_def
      cong: option.case_cong sum.case_cong prod.case_cong if_cong)

lemma demo_fees:
  "0 \<le> lev \<Longrightarrow> lev < 2 ^ 53 \<Longrightarrow> calculateFees 1000000000 lev demo_connection =
     (Inr \<lparr>basePaidAmount = 1000000000, percentageFee = 20000000 + 1000000 * lev,
           accountFee = 1858320\<rparr>, [GetMinimumBalanceForRentExemption 147])"
  by (simp add: calculateFees_def BN_of_number_def demo_connection_def PositionAccountData_size_def
      baseFee_def leverageFee_def BN_div_nonneg)

lemma demo_create:
  assumes "dir \<noteq> []" "1 \<le> lev" "lev \<le> 255"
  shows "createUranusPositionTransaction demo_derivation 1700000000000 demo_connection
      (Some (demo_key 1)) (Some (demo_key 2)) 1000000000 lev dir =
    (Inr (open_value demo_derivation 1700000000000 demo_connection (demo_key 1) (demo_key 2)
            (js ''SOL'')
            \<lparr>basePaidAmount = 1000000000, percentageFee = 20000000 + 1000000 * lev,
              accountFee = 1858320\<rparr> lev dir),
     [GetParsedAccountInfo (getMetadataPDA demo_derivation (demo_key 2)),
      GetMinimumBalanceForRentExemption 147, GetLatestBlockhash])"
proof -
  have md: "getParsedAccountInfo demo_connection (getMetadataPDA demo_derivation (demo_key 2))
      = Some \<lparr>symbol = js ''SOL''\<rparr>"
    by (simp add: demo_connection_def)
  have fees: "calculateFees 1000000000 lev demo_connection =
     (Inr \<lparr>basePaidAmount = 1000000000, percentageFee = 20000000 + 1000000 * lev,
           accountFee = 1858320\<rparr>, [GetMinimumBalanceForRentExemption 147])"
    using assms by (intro demo_fees) simp_all
  show ?thesis
    using create_success [OF _ _ assms(1) md _ fees, of 1700000000000 "demo_key 1"] assms
    by (simp add: js_def demo_key_def paidAmount_def)
qed

lemma fee_bounds:
  assumes "0 \<le> lamps" "0 \<le> lev" "lev \<le> 255"
  shows "0 \<le> baseFee lamps" "baseFee lamps \<le> lamps"
    "0 \<le> leverageFee lamps lev" "leverageFee lamps lev \<le> lamps"
proof -
  have b: "baseFee lamps = lamps * 200 div 10000"
    using assms by (simp add: baseFee_def BN_div_nonneg)
  have nn: "0 \<le> lamps * 10 * lev" using assms by simp
  then have l: "leverageFee lamps lev = lamps * 10 * lev div 10000"
    by (simp add: leverageFee_def BN_div_nonneg)
  show "0 \<le> baseFee lamps" "baseFee lamps \<le> lamps" using assms b by simp_all
  show "0 \<le> leverageFee lamps lev" using nn l by (simp add: pos_imp_zdiv_nonneg_iff)
  have "lamps * 10 * lev = lamps * (10 * lev)" by simp
  also have "\<dots> \<le> lamps * 10000" using assms by (intro mult_left_mono) simp_all
  finally have "lamps * 10 * lev div 10000 \<le> lamps * 10000 div 10000"
    by (intro zdiv_mono1) simp_all
  then show "leverageFee lamps lev \<le> lamps" using l by simp
qed

lemma consume_ok:
  "off + n \<le> length buf \<Longrightarrow> consume_bytes n (buf, off) = Inr (take n (drop off buf), (buf, off + n))"
  by (simp add: consume_bytes_def)

lemma consume_fail:
  "length buf < off + n \<Longrightarrow> consume_bytes n (buf, off) = Inl BorshBufferTooSmall"
  by (simp add: consume_bytes_def)

lemma decode_ok:
  assumes "147 \<le> length buf"
  shows "decode_PositionAccountData (buf, 0) = Inr (PositionAccountData_at buf, (buf, 147))"
  using assms
  by (simp add: decode_PositionAccountData_def bind_dec_def return_dec_def decode_unsigned_def
      decode_signed_def consume_ok PositionAccountData_at_def)

lemma decode_fail:
  assumes "length buf < 147"
  shows "decode_PositionAccountData (buf, 0) = Inl BorshBufferTooSmall"
  using assms
  by (simp add: decode_PositionAccountData_def bind_dec_def return_dec_def decode_unsigned_def
      decode_signed_def consume_bytes_def)

lemma deserialize_by_length:
  "deserializePositionAccount buf =
     (if length buf < 147 then Inl BorshBufferTooSmall
      else Inr (positionAccount_of (PositionAccountData_at buf)))"
  by (simp add: deserializePositionAccount_def deserialize_PositionAccountData_def
      decode_ok decode_fail)

lemma PositionAccountData_at_take:
  "147 \<le> length buf \<Longrightarrow> PositionAccountData_at (take 147 buf) = PositionAccountData_at buf"
  by (simp add: PositionAccountData_at_def drop_take min_def)

lemma map_throwing_Inr:
  "(\<forall>x\<in>set xs. f x = Inr (g x)) \<Longrightarrow> map_throwing f xs = Inr (map g xs)"
  by (induction xs) simp_all

lemma map_throwing_Inl:
  "(\<forall>x\<in>set xs. f x = Inl e \<or> (\<exists>y. f x = Inr y)) \<Longrightarrow> (\<exists>x\<in>set xs. f x = Inl e)
   \<Longrightarrow> map_throwing f xs = Inl e"
proof (induction xs)
  case Nil
  then show ?case by simp
next
  case (Cons x xs)
  show ?case
  proof (cases "f x")
    case (Inl a)
    then show ?thesis using Cons.prems by auto
  next
    case (Inr y)
    then have "\<exists>x\<in>set xs. f x = Inl e" using Cons.prems by auto
    then have "map_throwing f xs = Inl e" using Cons by simp
    then show ?thesis using Inr by simp
  qed
qed

lemma le_nat_zeros: "le_nat (replicate n 0) = 0"
  by (induction n) simp_all

lemma utf8_run_zeros: "utf8_run utf8_initial (replicate n 0) = replicate n 0"
  by (induction n) (simp_all add: utf8_initial_def utf8_handler_def utf8_lead_def)

lemma symbol_text_zeros: "symbol_text (replicate n 0) = []"
proof -
  have "utf8_run utf8_initial (map unat (replicate n (0::byte))) = replicate n 0"
    by (simp add: utf8_run_zeros)
  then have "TextDecoder_decode (replicate n 0) = replicate n 0"
    by (cases n) (simp_all add: TextDecoder_decode_def strip_bom_def)
  then show ?thesis by (simp add: symbol_text_def)
qed

lemma zero_account:
  "147 \<le> n \<Longrightarrow> deserializePositionAccount (replicate n 0) =
     Inr \<lparr>pos_owner = replicate 32 0, pos_market_mint = replicate 32 0,
          pos_market_symbol = [], pos_entry_price = 0, pos_liquidation_price = 0,
          pos_paid_amount = 0, pos_position_size = 0, pos_leverage = 0, pos_closed = 0,
          pos_position_nonce = 0, pos_direction = js ''SHORT''\<rparr>"
  by (simp add: deserialize_by_length positionAccount_of_def PositionAccountData_at_def
      le_nat_zeros symbol_text_zeros signed_of_def min_def)

lemma demo_position:
  "length a = 32 \<Longrightarrow> length b = 32 \<Longrightarrow>
   deserializePositionAccount (a @ b @ replicate 83 0) =
     Inr \<lparr>pos_owner = a, pos_market_mint = b,
          pos_market_symbol = [], pos_entry_price = 0, pos_liquidation_price = 0,
          pos_paid_amount = 0, pos_position_size = 0, pos_leverage = 0, pos_closed = 0,
          pos_position_nonce = 0, pos_direction = js ''SHORT''\<rparr>"
  by (simp add: deserialize_by_length positionAccount_of_def PositionAccountData_at_def
      le_nat_zeros symbol_text_zeros signed_of_def min_def)

lemma listing_unfiltered:
  "fst (getOpenPositions conn None None None) =
     map_throwing (\<lambda>a. deserializePositionAccount (account_data a))
       (filter (\<lambda>a. account_data a \<noteq> []) (getProgramAccounts conn PROGRAM_ID))"
  by (simp add: getOpenPositions_def Let_def apply_filters_def truthy_str_def split: sum.split)

lemma listing_filtered:
  "fst (getOpenPositions conn own_opt mint_opt ticker) =
     map_sum id (apply_filters own_opt mint_opt ticker) (fst (getOpenPositions conn None None None))"
  by (simp add: getOpenPositions_def Let_def apply_filters_def truthy_str_def split: sum.split)

lemma short_accounts:
  "getProgramAccounts short_connection k = [\<lparr>pubkey = demo_key 9, account_data = replicate 139 0\<rparr>]"
  by (simp add: short_connection_def)

lemma long_accounts:
  "getProgramAccounts long_connection k =
     [\<lparr>pubkey = demo_key 9, account_data = replicate 148 0\<rparr>,
      \<lparr>pubkey = demo_key 7, account_data = []\<rparr>]"
  by (simp add: long_connection_def)

lemma two_accounts:
  "getProgramAccounts two_connection k =
     [\<lparr>pubkey = demo_key 8, account_data = demo_key 1 @ demo_key 2 @ replicate 83 0\<rparr>,
      \<lparr>pubkey = demo_key 9, account_data = demo_key 3 @ demo_key 4 @ replicate 83 0\<rparr>]"
  by (simp add: two_connection_def)

lemma two_listing:
  "fst (getOpenPositions two_connection None None None) =
     Inr [\<lparr>pos_owner = demo_key 1, pos_market_mint = demo_key 2,
           pos_market_symbol = [], pos_entry_price = 0, pos_liquidation_price = 0,
           pos_paid_amount = 0, pos_position_size = 0, pos_leverage = 0, pos_closed = 0,
           pos_position_nonce = 0, pos_direction = js ''SHORT''\<rparr>,
          \<lparr>pos_owner = demo_key 3, pos_market_mint = demo_key 4,
           pos_market_symbol = [], pos_entry_price = 0, pos_liquidation_price = 0,
           pos_paid_amount = 0, pos_position_size = 0, pos_leverage = 0, pos_closed = 0,
           pos_position_nonce = 0, pos_direction = js ''SHORT''\<rparr>]"
proof -
  have l: "length (demo_key b) = 32" for b by (simp add: demo_key_def)
  have n: "demo_key b @ demo_key c @ replicate 83 0 \<noteq> []" for b c by (simp add: demo_key_def)
  show ?thesis
    by (simp add: listing_unfiltered two_accounts n demo_position [OF l l])
qed

lemma scan_page_all:
  "\<forall>sg\<in>set page. cutoff \<le> blockTime_number sg \<Longrightarrow> scan_page cutoff page = (page, False)"
  by (induction page) simp_all

lemma scan_page_sorted:
  "newest_first page \<Longrightarrow>
   fst (scan_page cutoff page) = filter (\<lambda>sg. cutoff \<le> blockTime_number sg) page
   \<and> snd (scan_page cutoff page) = (\<exists>sg\<in>set page. blockTime_number sg < cutoff)"
proof (induction page)
  case Nil
  then show ?case by simp
next
  case (Cons sg page)
  show ?case
  proof (cases "cutoff \<le> blockTime_number sg")
    case True
    then show ?thesis using Cons by (auto simp: newest_first_def)
  next
    case False
    then have "\<forall>x\<in>set page. \<not> cutoff \<le> blockTime_number x"
      using Cons.prems by (auto simp: newest_first_def)
    then have "filter (\<lambda>sg. cutoff \<le> blockTime_number sg) page = []"
      by (simp add: filter_empty_conv)
    then show ?thesis using False by auto
  qed
qed

lemma newest_first_last:
  "newest_first page \<Longrightarrow> page \<noteq> [] \<Longrightarrow> sg \<in> set page \<Longrightarrow>
   blockTime_number (last page) \<le> blockTime_number sg"
  by (induction page) (auto simp: newest_first_def)

lemma loop_stop:
  assumes "options_before = (if truthy_str before then before else None)"
    and "snd (scan_page cutoff (getSignaturesForAddress conn acct options_before))
         \<or> length (getSignaturesForAddress conn acct options_before) < 100"
  shows "signatures_loop conn acct cutoff before acc calls =
     Some (acc @ fst (scan_page cutoff (getSignaturesForAddress conn acct options_before)),
           calls @ [GetSignaturesForAddress acct options_before])"
  using assms by (subst signatures_loop.simps) (simp add: Let_def)

lemma loop_continue:
  assumes "options_before = (if truthy_str before then before else None)"
    and "getSignaturesForAddress conn acct options_before = page"
    and "\<forall>sg\<in>set page. cutoff \<le> blockTime_number sg" "100 \<le> length page"
  shows "signatures_loop conn acct cutoff before acc calls =
     signatures_loop conn acct cutoff (Some (signature (last page))) (acc @ page)
       (calls @ [GetSignaturesForAddress acct options_before])"
  using assms by (subst signatures_loop.simps) (simp add: Let_def scan_page_all)

lemma scan_page_takeWhile:
  "fst (scan_page cutoff page) = takeWhile (\<lambda>sg. cutoff \<le> blockTime_number sg) page"
  by (induction page) simp_all

lemma page_of_facts:
  "length (page_of name t n) = n"
  "newest_first (page_of name t n)"
  "0 < n \<Longrightarrow> last (page_of name t n) = \<lparr>signature = js name, blockTime = Some t\<rparr>"
  by (simp_all add: page_of_def newest_first_def sorted_wrt_iff_nth_less)

lemma run1:
  assumes "c < 0x80"
  shows "utf8_run utf8_initial (utf8_bytes c @ rest) = c # utf8_run utf8_initial rest"
  using assms by (simp add: utf8_bytes_def utf8_handler_def utf8_lead_def utf8_initial_def)

lemma mod_numeral_add: "l < k \<Longrightarrow> (k * q + l) mod k = (l::nat)"
  by simp

lemma run2:
  assumes "0x80 \<le> c" "c < 0x800"
  shows "utf8_run utf8_initial (utf8_bytes c @ rest) = c # utf8_run utf8_initial rest"
proof -
  define h where "h = c div 64"
  define l where "l = c mod 64"
  have c: "h * 64 + l = c" and l: "l < 64"
    by (simp_all add: h_def l_def)
  have h: "2 \<le> h" "h < 32"
    using assms by (simp_all add: h_def less_mult_imp_div_less le_div_geq)
  have b: "utf8_bytes c = [0xC0 + h, 0x80 + l]"
    using assms by (simp add: utf8_bytes_def h_def l_def)
  have m: "(0xC0 + h) mod 32 = h" "(0x80 + l) mod 64 = l"
    using mod_numeral_add [of h 32 6] mod_numeral_add [of l 64 2] h l by simp_all
  show ?thesis
    unfolding b using h l m c
    by (simp add: utf8_handler_def utf8_lead_def utf8_initial_def)
qed

lemma run3:
  assumes "0x800 \<le> c" "c < 0x10000" "\<not> (0xD800 \<le> c \<and> c \<le> 0xDFFF)"
  shows "utf8_run utf8_initial (utf8_bytes c @ rest) = c # utf8_run utf8_initial rest"
proof -
  define q where "q = c div 64"
  define l where "l = c mod 64"
  define h where "h = q div 64"
  define m where "m = q mod 64"
  have c: "q * 64 + l = c" and l: "l < 64" and q: "h * 64 + m = q" and m: "m < 64"
    by (simp_all add: q_def l_def h_def m_def)
  have qr: "32 \<le> q" "q < 1024" "\<not> (864 \<le> q \<and> q \<le> 895)"
    using assms c l by linarith+
  have h: "h \<le> 15" "h = 0 \<longrightarrow> \<not> m < 32" "h = 13 \<longrightarrow> \<not> 31 < m"
    using qr q m by linarith+
  have d: "c div 4096 = h"
    using div_mult2_eq [of c 64 64] by (simp add: h_def q_def)
  have b: "utf8_bytes c = [0xE0 + h, 0x80 + m, 0x80 + l]"
    using assms by (simp add: utf8_bytes_def d) (simp add: m_def q_def l_def)
  have md: "(0xE0 + h) mod 16 = h" "(0x80 + m) mod 64 = m" "(0x80 + l) mod 64 = l"
    using mod_numeral_add [of h 16 14] mod_numeral_add [of m 64 2] mod_numeral_add [of l 64 2]
      h l m by simp_all
  show ?thesis
    unfolding b using h l m md c q
    by (simp add: utf8_handler_def utf8_lead_def utf8_initial_def)
qed

lemma run4:
  assumes "0x10000 \<le> c" "c < 0x110000"
  shows "utf8_run utf8_initial (utf8_bytes c @ rest) = c # utf8_run utf8_initial rest"
proof -
  define q where "q = c div 64"
  define l where "l = c mod 64"
  define r where "r = q div 64"
  define m where "m = q mod 64"
  define h where "h = r div 64"
  define k where "k = r mod 64"
  have c: "q * 64 + l = c" and l: "l < 64" and q: "r * 64 + m = q" and m: "m < 64"
    and r: "h * 64 + k = r" and k: "k < 64"
    by (simp_all add: q_def l_def r_def m_def h_def k_def)
  have rr: "16 \<le> r" "r < 272"
    using assms c l q m by linarith+
  have h: "h \<le> 4" "h = 0 \<longrightarrow> \<not> k < 16" "h = 4 \<longrightarrow> \<not> 15 < k"
    using rr r k by linarith+
  have d1: "c div 4096 = r"
    using div_mult2_eq [of c 64 64] by (simp add: r_def q_def)
  have d2: "c div 262144 = h"
    using div_mult2_eq [of c 4096 64] by (simp add: h_def d1)
  have b: "utf8_bytes c = [0xF0 + h, 0x80 + k, 0x80 + m, 0x80 + l]"
    using assms by (simp add: utf8_bytes_def d1 d2) (simp add: k_def m_def q_def l_def)
  have md: "(0xF0 + h) mod 8 = h" "(0x80 + k) mod 64 = k" "(0x80 + m) mod 64 = m"
    "(0x80 + l) mod 64 = l"
    using mod_numeral_add [of h 8 30] mod_numeral_add [of k 64 2] mod_numeral_add [of m 64 2]
      mod_numeral_add [of l 64 2] h k l m by simp_all
  show ?thesis
    unfolding b using h k l m md c q r
    by (simp add: utf8_handler_def utf8_lead_def utf8_initial_def)
qed

lemma run_scalar:
  assumes "is_scalar_value c"
  shows "utf8_run utf8_initial (utf8_bytes c @ rest) = c # utf8_run utf8_initial rest"
proof -
  consider "c < 0x80" | "0x80 \<le> c" "c < 0x800" | "0x800 \<le> c" "c < 0x10000"
    | "0x10000 \<le> c" by linarith
  then show ?thesis
    using assms by cases (simp_all add: run1 run2 run3 run4 is_scalar_value_def)
qed

lemma run_concat:
  "\<forall>c\<in>set s. is_scalar_value c \<Longrightarrow>
   utf8_run utf8_initial (concat (map utf8_bytes s) @ rest) = s @ utf8_run utf8_initial rest"
  by (induction s) (simp_all add: run_scalar)

lemma utf8_bytes_range: "c < 0x110000 \<Longrightarrow> \<forall>b\<in>set (utf8_bytes c). b < 256"
proof -
  assume a: "c < 0x110000"
  have "c div 64 < 32" if "c < 0x800" using that by (simp add: less_mult_imp_div_less)
  moreover have "c div 4096 < 16" if "c < 0x10000" using that by (simp add: less_mult_imp_div_less)
  moreover have "c div 262144 < 16" using a by (simp add: less_mult_imp_div_less)
  moreover have "x mod 64 < 64" for x :: nat by simp
  ultimately show ?thesis
    by (auto simp: utf8_bytes_def intro: add_strict_mono [of _ 128 _ 64, simplified])
qed


lemma unat_of_nat_byte: "n < 256 \<Longrightarrow> unat (of_nat n :: byte) = n"
  by (simp add: unat_of_nat take_bit_nat_eq_self)

lemma unat_of_nat_bytes:
  "\<forall>b\<in>set bs. b < 256 \<Longrightarrow> map unat (map of_nat bs :: byte list) = bs"
  by (induction bs) (simp_all add: unat_of_nat_byte)

lemma scalar_value_id: "is_scalar_value c \<Longrightarrow> scalar_value c = c"
  by (auto simp: is_scalar_value_def scalar_value_def)

lemma unat_TextEncoder:
  assumes "\<forall>c\<in>set s. is_scalar_value c"
  shows "map unat (TextEncoder_encode s) = concat (map utf8_bytes s)"
proof -
  have e: "map (\<lambda>c. utf8_bytes (scalar_value c)) s = map utf8_bytes s"
    using assms by (simp add: scalar_value_id)
  have "\<forall>b\<in>set (concat (map utf8_bytes s)). b < 256"
    using assms utf8_bytes_range by (auto simp: is_scalar_value_def)
  then have "map unat (map of_nat (concat (map utf8_bytes s)) :: byte list) = concat (map utf8_bytes s)"
    by (rule unat_of_nat_bytes)
  then show ?thesis by (simp add: TextEncoder_encode_def e)
qed

lemma symbol_text_encoded:
  assumes "\<forall>c\<in>set s. is_scalar_value c"
  shows "symbol_text (TextEncoder_encode s @ replicate n 0) = filter (\<lambda>c. c \<noteq> 0) (strip_bom s)"
proof -
  have "utf8_run utf8_initial (map unat (TextEncoder_encode s @ replicate n 0)) = s @ replicate n 0"
    using run_concat [OF assms, of "replicate n 0"]
    by (simp add: unat_TextEncoder [OF assms] utf8_run_zeros)
  then have d: "TextDecoder_decode (TextEncoder_encode s @ replicate n 0) = strip_bom (s @ replicate n 0)"
    by (simp add: TextDecoder_decode_def)
  have "filter (\<lambda>c. c \<noteq> 0) (strip_bom (s @ replicate n 0)) = filter (\<lambda>c. c \<noteq> 0) (strip_bom s)"
  proof (cases s)
    case Nil
    then show ?thesis by (cases n) (simp_all add: strip_bom_def)
  next
    case (Cons c cs)
    then show ?thesis by (simp add: strip_bom_def)
  qed
  then show ?thesis by (simp add: symbol_text_def d)
qed

lemma ascii_encode: "\<forall>c\<in>set s. c < 0x80 \<Longrightarrow> TextEncoder_encode s = map of_nat s"
  by (induction s) (simp_all add: TextEncoder_encode_def scalar_value_def utf8_bytes_def)

subsection \<open>Fees and position size\<close>

text \<open>
  Claim C1. For a principal of \<open>amt\<close> lamports (a non-negative JavaScript integer, below
  \<open>2 ^ 53\<close>) and a leverage from 1 to 5, \<open>calculateFees\<close> makes one remote call, for
  the rent of an account of \<open>PositionAccountData.size\<close> bytes, and returns the principal, the percentage fee and the
  rent, where the percentage fee is the base fee \<open>amt * 200 div 10000\<close> plus the leverage
  fee \<open>amt * 10 * lev div 10000\<close>, both with floor division; the position size of the
  builder is the principal less the two fees and the rent, times the leverage.
\<close>

theorem calculateFees_positionSize:
  assumes p: "0 \<le> amt" "amt < 2 ^ 53"
    and l: "1 \<le> lev" "lev \<le> 5"
    and r: "0 \<le> getMinimumBalanceForRentExemption conn PositionAccountData_size"
           "getMinimumBalanceForRentExemption conn PositionAccountData_size < 2 ^ 53"
  shows "\<exists>f. calculateFees amt lev conn =
               (Inr f, [GetMinimumBalanceForRentExemption PositionAccountData_size])
           \<and> basePaidAmount f = amt
           \<and> baseFee amt = amt * 200 div 10000
           \<and> leverageFee amt lev = amt * 10 * lev div 10000
           \<and> percentageFee f = baseFee amt + leverageFee amt lev
           \<and> accountFee f = getMinimumBalanceForRentExemption conn PositionAccountData_size
           \<and> positionSize f lev =
               (amt - baseFee amt - leverageFee amt lev - accountFee f) * lev"
proof -
  have b: "baseFee amt = amt * 200 div 10000"
    using p by (simp add: baseFee_def BN_div_nonneg)
  have "0 \<le> amt * 10 * lev" using p l by simp
  then have lf: "leverageFee amt lev = amt * 10 * lev div 10000"
    by (simp add: leverageFee_def BN_div_nonneg)
  have "\<bar>amt\<bar> < 2 ^ 53" "\<bar>lev\<bar> < 2 ^ 53"
    "\<bar>getMinimumBalanceForRentExemption conn PositionAccountData_size\<bar> < 2 ^ 53"
    using p l r by simp_all
  then show ?thesis using b lf
    by (simp add: calculateFees_def BN_of_number_def positionSize_def)
qed

text \<open>
  The scenario of the specification: one SOL at leverage 3, with a rent of 1858320
  lamports.
\<close>

theorem calculateFees_positionSize_witness:
  "calculateFees 1000000000 3 demo_connection =
     (Inr \<lparr>basePaidAmount = 1000000000, percentageFee = 23000000, accountFee = 1858320\<rparr>,
      [GetMinimumBalanceForRentExemption 147])
   \<and> baseFee 1000000000 = 20000000 \<and> leverageFee 1000000000 3 = 3000000
   \<and> positionSize \<lparr>basePaidAmount = 1000000000, percentageFee = 23000000, accountFee = 1858320\<rparr> 3
       = (1000000000 - 20000000 - 3000000 - 1858320) * 3"
proof -
  have r: "getMinimumBalanceForRentExemption demo_connection PositionAccountData_size = 1858320"
    by (simp add: demo_connection_def)
  from calculateFees_positionSize [of 1000000000 3 demo_connection]
  obtain f where f: "calculateFees 1000000000 3 demo_connection =
        (Inr f, [GetMinimumBalanceForRentExemption PositionAccountData_size])"
      "basePaidAmount f = 1000000000" "baseFee 1000000000 = 20000000"
      "leverageFee 1000000000 3 = 3000000"
      "percentageFee f = baseFee 1000000000 + leverageFee 1000000000 3"
      "accountFee f = 1858320"
      "positionSize f 3 = (1000000000 - baseFee 1000000000 - leverageFee 1000000000 3 - accountFee f) * 3"
    unfolding r by auto
  have "f = \<lparr>basePaidAmount = 1000000000, percentageFee = 23000000, accountFee = 1858320\<rparr>"
    using f by (cases f) simp
  then show ?thesis using f by (simp add: PositionAccountData_size_def positionSize_def)
qed

subsection \<open>The direction\<close>

text \<open>
  Claim C2, as the code has it. The builder knows no direction error. The empty string
  is rejected with the other missing arguments, before any remote call. A string equal
  to \<open>long\<close> up to case is written as \<open>1\<close> and is treated as \<open>long\<close> itself;
  every other string that is not empty, \<open>short\<close> or not, is written as \<open>-1\<close> and is
  treated as \<open>short\<close>. Whenever the builder succeeds, the last byte of the data of its
  one instruction is that code.
\<close>

theorem direction_encoding:
  "createUranusPositionTransaction fpa now conn own_opt mint_opt lamps lev [] =
     (Inl MissingRequiredParameters, [])
   \<and> (ascii_caseless_eq dir (js ''long'') \<longrightarrow>
        direction_code dir = 1 \<and>
        createUranusPositionTransaction fpa now conn own_opt mint_opt lamps lev dir =
        createUranusPositionTransaction fpa now conn own_opt mint_opt lamps lev (js ''long''))
   \<and> (dir \<noteq> [] \<and> \<not> ascii_caseless_eq dir (js ''long'') \<longrightarrow>
        direction_code dir = - 1 \<and>
        createUranusPositionTransaction fpa now conn own_opt mint_opt lamps lev dir =
        createUranusPositionTransaction fpa now conn own_opt mint_opt lamps lev (js ''short''))
   \<and> (createUranusPositionTransaction fpa now conn own_opt mint_opt lamps lev dir = (Inr r, calls) \<longrightarrow>
        (\<exists>ix body. instructions (open_transaction r) = [ix] \<and>
           data ix = 0 # body @ [if ascii_caseless_eq dir (js ''long'') then 1 else - 1]))"
proof (intro conjI impI)
  show "createUranusPositionTransaction fpa now conn own_opt mint_opt lamps lev [] =
     (Inl MissingRequiredParameters, [])"
    by (simp add: createUranusPositionTransaction_def split: option.split)
next
  assume a: "ascii_caseless_eq dir (js ''long'')"
  then have ne: "dir \<noteq> []" by (auto simp: ascii_caseless_eq_def js_def)
  have c: "direction_code dir = direction_code (js ''long'')"
    using a by (simp add: direction_code_def toLowerCase_long) (simp add: ascii_caseless_eq_def js_def)
  show "direction_code dir = 1" using a by (simp add: direction_code_def toLowerCase_long)
  show "createUranusPositionTransaction fpa now conn own_opt mint_opt lamps lev dir =
        createUranusPositionTransaction fpa now conn own_opt mint_opt lamps lev (js ''long'')"
    by (rule create_dir_only [OF ne _ c]) (simp add: js_def)
next
  assume a: "dir \<noteq> [] \<and> \<not> ascii_caseless_eq dir (js ''long'')"
  have s: "direction_code (js ''short'') = - 1"
    by (simp add: direction_code_def toLowerCase_def js_def)
  show d: "direction_code dir = - 1" using a by (simp add: direction_code_def toLowerCase_long)
  show "createUranusPositionTransaction fpa now conn own_opt mint_opt lamps lev dir =
        createUranusPositionTransaction fpa now conn own_opt mint_opt lamps lev (js ''short'')"
    by (rule create_dir_only) (use a d s in \<open>simp_all add: js_def\<close>)
next
  assume "createUranusPositionTransaction fpa now conn own_opt mint_opt lamps lev dir = (Inr r, calls)"
  from create_Inr [OF this] obtain own mint f and md :: metadata where
    r: "r = open_value fpa now conn own mint (symbol md) f lev dir" by blast
  have "of_int (direction_code dir) = (if ascii_caseless_eq dir (js ''long'') then 1 else - 1 :: byte)"
    by (simp add: direction_code_def toLowerCase_long)
  then show "\<exists>ix body. instructions (open_transaction r) = [ix] \<and>
           data ix = 0 # body @ [if ascii_caseless_eq dir (js ''long'') then 1 else - 1]"
    unfolding r open_value_def open_instruction_def open_payload_def
    by (simp del: append_assoc add: append_assoc [symmetric])
qed

text \<open>
  The direction \<open>sideways\<close> is not refused: the builder makes its three remote calls
  and returns a transaction whose payload ends with the byte \<open>-1\<close>, that of a short
  position.
\<close>

theorem direction_counterexample:
  "createUranusPositionTransaction demo_derivation 1700000000000 demo_connection
      (Some (demo_key 1)) (Some (demo_key 2)) 1000000000 3 (js ''sideways'') =
    (Inr (open_value demo_derivation 1700000000000 demo_connection (demo_key 1) (demo_key 2)
            (js ''SOL'')
            \<lparr>basePaidAmount = 1000000000, percentageFee = 23000000, accountFee = 1858320\<rparr>
            3 (js ''sideways'')),
     [GetParsedAccountInfo (getMetadataPDA demo_derivation (demo_key 2)),
      GetMinimumBalanceForRentExemption 147, GetLatestBlockhash])
   \<and> last (open_payload (demo_key 2) (js ''SOL'')
              \<lparr>basePaidAmount = 1000000000, percentageFee = 23000000, accountFee = 1858320\<rparr>
              3 1700000000000 (js ''sideways'')) = - 1"
  using demo_create [of "js ''sideways''" 3]
  by (simp add: js_def open_payload_def direction_code_def toLowerCase_def toLowerCase_cp_def)

theorem direction_encoding_witness:
  "ascii_caseless_eq (js ''LONG'') (js ''long'')
   \<and> direction_code (js ''LONG'') = 1
   \<and> js ''Sideways'' \<noteq> [] \<and> \<not> ascii_caseless_eq (js ''Sideways'') (js ''long'')
   \<and> direction_code (js ''Sideways'') = - 1
   \<and> createUranusPositionTransaction demo_derivation 1700000000000 demo_connection
        (Some (demo_key 1)) (Some (demo_key 2)) 1000000000 3 (js ''Sideways'') =
      createUranusPositionTransaction demo_derivation 1700000000000 demo_connection
        (Some (demo_key 1)) (Some (demo_key 2)) 1000000000 3 (js ''short'')
   \<and> (\<exists>r calls ix body.
        createUranusPositionTransaction demo_derivation 1700000000000 demo_connection
          (Some (demo_key 1)) (Some (demo_key 2)) 1000000000 3 (js ''LONG'') = (Inr r, calls)
        \<and> instructions (open_transaction r) = [ix] \<and> data ix = 0 # body @ [1])"
proof -
  let ?R = "open_value demo_derivation 1700000000000 demo_connection (demo_key 1) (demo_key 2)
            (js ''SOL'')
            \<lparr>basePaidAmount = 1000000000, percentageFee = 20000000 + 1000000 * 3,
              accountFee = 1858320\<rparr> 3 (js ''LONG'')"
  let ?C = "[GetParsedAccountInfo (getMetadataPDA demo_derivation (demo_key 2)),
      GetMinimumBalanceForRentExemption 147, GetLatestBlockhash]"
  have l: "ascii_caseless_eq (js ''LONG'') (js ''long'')"
    by (simp add: ascii_caseless_eq_def js_def)
  have s: "js ''Sideways'' \<noteq> [] \<and> \<not> ascii_caseless_eq (js ''Sideways'') (js ''long'')"
    by (simp add: ascii_caseless_eq_def js_def)
  have run: "createUranusPositionTransaction demo_derivation 1700000000000 demo_connection
      (Some (demo_key 1)) (Some (demo_key 2)) 1000000000 3 (js ''LONG'') = (Inr ?R, ?C)"
    by (rule demo_create) (simp_all add: js_def)
  note t1 = direction_encoding [of demo_derivation 1700000000000 demo_connection
      "Some (demo_key 1)" "Some (demo_key 2)" 1000000000 3 "js ''LONG''" ?R ?C]
  note t2 = direction_encoding [of demo_derivation 1700000000000 demo_connection
      "Some (demo_key 1)" "Some (demo_key 2)" 1000000000 3 "js ''Sideways''"]
  from t1 [THEN conjunct2, THEN conjunct2, THEN conjunct2, rule_format, OF run] l
  have "\<exists>ix body. instructions (open_transaction ?R) = [ix] \<and> data ix = 0 # body @ [1]"
    by simp
  with run have a: "\<exists>r calls ix body.
        createUranusPositionTransaction demo_derivation 1700000000000 demo_connection
          (Some (demo_key 1)) (Some (demo_key 2)) 1000000000 3 (js ''LONG'') = (Inr r, calls)
        \<and> instructions (open_transaction r) = [ix] \<and> data ix = 0 # body @ [1]"
    by blast
  from t1 [THEN conjunct2, THEN conjunct1, rule_format, OF l]
  have b: "direction_code (js ''LONG'') = 1" by (rule conjunct1)
  note c = t2 [THEN conjunct2, THEN conjunct2, THEN conjunct1, rule_format, OF s]
  from a b c l s show ?thesis by (intro conjI) (simp_all only: simp_thms)
qed

subsection \<open>The leverage\<close>

text \<open>
  Claim C3, as the code has it. The builder has no check of the range of the leverage
  and no leverage error. The leverage 0 is rejected with the other missing arguments,
  before any remote call and any instruction. For every other leverage, a builder that
  succeeds has put into the data of its instruction the paid amount and the position
  size computed from the fees for that leverage, and the low byte of the leverage
  itself; and for every leverage from 1 to 255, so also 6 and 100, it does succeed when
  the amount and the rent are at most \<open>2 ^ 50\<close> lamports, the clock is a safe integer,
  the mint has 32 bytes and the token has a symbol.
\<close>

theorem leverage_unchecked:
  "createUranusPositionTransaction fpa now conn own_opt mint_opt lamps 0 dir =
     (Inl MissingRequiredParameters, [])
   \<and> (createUranusPositionTransaction fpa now conn own_opt mint_opt lamps lev dir = (Inr r, calls) \<longrightarrow>
        (\<exists>mint smb f calls2 ix.
           calculateFees lamps lev conn = (Inr f, calls2)
           \<and> percentageFee f = baseFee lamps + leverageFee lamps lev
           \<and> instructions (open_transaction r) = [ix]
           \<and> data ix = 0 # mint @ stringToFixedArray smb 32
                @ le_bytes 8 (paidAmount f) @ le_bytes 8 (positionSize f lev)
                @ [of_int lev] @ le_bytes 8 now @ [of_int (direction_code dir)]))
   \<and> (1 \<le> lev \<and> lev \<le> 255 \<and> 0 < lamps \<and> lamps \<le> 2 ^ 50
        \<and> 0 \<le> getMinimumBalanceForRentExemption conn PositionAccountData_size
        \<and> getMinimumBalanceForRentExemption conn PositionAccountData_size \<le> 2 ^ 50
        \<and> \<bar>now\<bar> < 2 ^ 53 \<and> dir \<noteq> [] \<and> length mint = 32
        \<and> getParsedAccountInfo conn (getMetadataPDA fpa mint) = Some md \<and> symbol md \<noteq> [] \<longrightarrow>
        (\<exists>r' calls'. createUranusPositionTransaction fpa now conn (Some own) (Some mint) lamps lev dir
           = (Inr r', calls')))"
proof (intro conjI impI)
  show "createUranusPositionTransaction fpa now conn own_opt mint_opt lamps 0 dir =
     (Inl MissingRequiredParameters, [])"
    by (simp add: createUranusPositionTransaction_def split: option.split)
next
  assume "createUranusPositionTransaction fpa now conn own_opt mint_opt lamps lev dir = (Inr r, calls)"
  from create_Inr [OF this] obtain own mint f calls2 and md :: metadata where
    f: "calculateFees lamps lev conn = (Inr f, calls2)"
    and r: "r = open_value fpa now conn own mint (symbol md) f lev dir" by blast
  have p: "percentageFee f = baseFee lamps + leverageFee lamps lev"
    using f by (auto simp: calculateFees_def BN_of_number_def split: if_splits)
  show "\<exists>mint smb f calls2 ix.
           calculateFees lamps lev conn = (Inr f, calls2)
           \<and> percentageFee f = baseFee lamps + leverageFee lamps lev
           \<and> instructions (open_transaction r) = [ix]
           \<and> data ix = 0 # mint @ stringToFixedArray smb 32
                @ le_bytes 8 (paidAmount f) @ le_bytes 8 (positionSize f lev)
                @ [of_int lev] @ le_bytes 8 now @ [of_int (direction_code dir)]"
    using f p unfolding r open_value_def open_instruction_def open_payload_def
    by (intro exI [of _ mint] exI [of _ "symbol md"] exI [of _ f] exI [of _ calls2]) simp
next
  assume a: "1 \<le> lev \<and> lev \<le> 255 \<and> 0 < lamps \<and> lamps \<le> 2 ^ 50
        \<and> 0 \<le> getMinimumBalanceForRentExemption conn PositionAccountData_size
        \<and> getMinimumBalanceForRentExemption conn PositionAccountData_size \<le> 2 ^ 50
        \<and> \<bar>now\<bar> < 2 ^ 53 \<and> dir \<noteq> [] \<and> length mint = 32
        \<and> getParsedAccountInfo conn (getMetadataPDA fpa mint) = Some md \<and> symbol md \<noteq> []"
  let ?rent = "getMinimumBalanceForRentExemption conn PositionAccountData_size"
  let ?f = "\<lparr>basePaidAmount = lamps, percentageFee = baseFee lamps + leverageFee lamps lev,
             accountFee = ?rent\<rparr>"
  have h: "0 \<le> lamps" "0 \<le> lev" "lev \<le> 255" using a by simp_all
  note fb = fee_bounds [OF h]
  have f: "calculateFees lamps lev conn =
      (Inr ?f, [GetMinimumBalanceForRentExemption PositionAccountData_size])"
    using a by (simp add: calculateFees_def BN_of_number_def)
  have "createUranusPositionTransaction fpa now conn (Some own) (Some mint) lamps lev dir =
           (Inr (open_value fpa now conn own mint (symbol md) ?f lev dir),
            GetParsedAccountInfo (getMetadataPDA fpa mint)
              # [GetMinimumBalanceForRentExemption PositionAccountData_size] @ [GetLatestBlockhash])"
    using a fb by (intro create_success [OF _ _ _ _ _ f]) (simp_all add: paidAmount_def)
  then show "\<exists>r' calls'. createUranusPositionTransaction fpa now conn (Some own) (Some mint) lamps lev dir
           = (Inr r', calls')" by blast
qed

text \<open>
  With leverage 6 the builder returns a transaction, and its payload carries the paid
  amount 1027858320 and the position size 5832850080 computed for that leverage.
\<close>

theorem leverage_counterexample:
  "createUranusPositionTransaction demo_derivation 1700000000000 demo_connection
      (Some (demo_key 1)) (Some (demo_key 2)) 1000000000 6 (js ''long'') =
    (Inr (open_value demo_derivation 1700000000000 demo_connection (demo_key 1) (demo_key 2)
            (js ''SOL'')
            \<lparr>basePaidAmount = 1000000000, percentageFee = 26000000, accountFee = 1858320\<rparr>
            6 (js ''long'')),
     [GetParsedAccountInfo (getMetadataPDA demo_derivation (demo_key 2)),
      GetMinimumBalanceForRentExemption 147, GetLatestBlockhash])
   \<and> open_payload (demo_key 2) (js ''SOL'')
         \<lparr>basePaidAmount = 1000000000, percentageFee = 26000000, accountFee = 1858320\<rparr>
         6 1700000000000 (js ''long'')
       = demo_key 2 @ stringToFixedArray (js ''SOL'') 32
         @ le_bytes 8 1027858320 @ le_bytes 8 5832850080 @ [6] @ le_bytes 8 1700000000000 @ [1]"
  using demo_create [of "js ''long''" 6]
  by (simp add: js_def open_payload_def direction_code_def toLowerCase_def toLowerCase_cp_def
      paidAmount_def positionSize_def)

theorem leverage_unchecked_witness:
  "createUranusPositionTransaction demo_derivation 1700000000000 demo_connection
      (Some (demo_key 1)) (Some (demo_key 2)) 1000000000 0 (js ''long'') =
     (Inl MissingRequiredParameters, [])
   \<and> (\<exists>r' calls'. createUranusPositionTransaction demo_derivation 1700000000000 demo_connection
        (Some (demo_key 1)) (Some (demo_key 2)) 1000000000 100 (js ''long'') = (Inr r', calls'))
   \<and> (\<exists>mint smb f calls2 ix.
         calculateFees 1000000000 100 demo_connection = (Inr f, calls2)
         \<and> percentageFee f = baseFee 1000000000 + leverageFee 1000000000 100
         \<and> instructions (open_transaction
              (open_value demo_derivation 1700000000000 demo_connection (demo_key 1) (demo_key 2)
                 (js ''SOL'')
                 \<lparr>basePaidAmount = 1000000000, percentageFee = 120000000, accountFee = 1858320\<rparr>
                 100 (js ''long''))) = [ix]
         \<and> data ix = 0 # mint @ stringToFixedArray smb 32
              @ le_bytes 8 (paidAmount f) @ le_bytes 8 (positionSize f 100)
              @ [100] @ le_bytes 8 1700000000000 @ [of_int (direction_code (js ''long''))])"
proof -
  let ?R = "open_value demo_derivation 1700000000000 demo_connection (demo_key 1) (demo_key 2)
                 (js ''SOL'')
                 \<lparr>basePaidAmount = 1000000000, percentageFee = 120000000, accountFee = 1858320\<rparr>
                 100 (js ''long'')"
  let ?C = "[GetParsedAccountInfo (getMetadataPDA demo_derivation (demo_key 2)),
      GetMinimumBalanceForRentExemption 147, GetLatestBlockhash]"
  have run: "createUranusPositionTransaction demo_derivation 1700000000000 demo_connection
      (Some (demo_key 1)) (Some (demo_key 2)) 1000000000 100 (js ''long'') = (Inr ?R, ?C)"
    using demo_create [of "js ''long''" 100] by (simp add: js_def)
  note t = leverage_unchecked [of demo_derivation 1700000000000 demo_connection
      "Some (demo_key 1)" "Some (demo_key 2)" 1000000000 "js ''long''" 100 ?R ?C
      "demo_key 2" "\<lparr>symbol = js ''SOL''\<rparr>" "demo_key 1"]
  have h: "1 \<le> (100::int) \<and> (100::int) \<le> 255 \<and> 0 < (1000000000::int) \<and> (1000000000::int) \<le> 2 ^ 50
        \<and> 0 \<le> getMinimumBalanceForRentExemption demo_connection PositionAccountData_size
        \<and> getMinimumBalanceForRentExemption demo_connection PositionAccountData_size \<le> 2 ^ 50
        \<and> \<bar>1700000000000::int\<bar> < 2 ^ 53 \<and> js ''long'' \<noteq> [] \<and> length (demo_key 2) = 32
        \<and> getParsedAccountInfo demo_connection (getMetadataPDA demo_derivation (demo_key 2))
            = Some \<lparr>symbol = js ''SOL''\<rparr> \<and> symbol \<lparr>symbol = js ''SOL''\<rparr> \<noteq> []"
    by (simp add: demo_connection_def demo_key_def js_def)
  note a = t [THEN conjunct1]
  note b = t [THEN conjunct2, THEN conjunct1, rule_format, OF run]
  note c = t [THEN conjunct2, THEN conjunct2, rule_format, OF h]
  from b have "\<exists>mint smb f calls2 ix.
         calculateFees 1000000000 100 demo_connection = (Inr f, calls2)
         \<and> percentageFee f = baseFee 1000000000 + leverageFee 1000000000 100
         \<and> instructions (open_transaction ?R) = [ix]
         \<and> data ix = 0 # mint @ stringToFixedArray smb 32
              @ le_bytes 8 (paidAmount f) @ le_bytes 8 (positionSize f 100)
              @ [100] @ le_bytes 8 1700000000000 @ [of_int (direction_code (js ''long''))]"
    by simp
  with a c show ?thesis by (intro conjI)
qed

subsection \<open>The symbol, encoded and decoded\<close>

text \<open>
  Claim C6, as the code has it. \<open>stringToFixedArray\<close> keeps the first 31 bytes of
  the UTF-8 encoding of the symbol and fills the 32 bytes up with zeros.
  \<open>deserializePositionAccount\<close> decodes all 32 bytes as UTF-8 and never fails (a
  malformed sequence becomes U+FFFD), drops a leading U+FEFF, and then removes every
  NUL character, not only the trailing ones. So, for a symbol of Unicode scalar values
  whose encoding has at most 31 bytes, decoding the encoded symbol gives the symbol
  without a leading U+FEFF and without its NUL characters; it gives the symbol itself
  when the symbol has no NUL character and does not start with U+FEFF, which covers the
  empty symbol, a symbol of 31 bytes and a symbol of characters outside ASCII.
\<close>

theorem symbol_round_trip:
  "length (stringToFixedArray s 32) = 32
   \<and> stringToFixedArray s 32 =
        take 31 (TextEncoder_encode s) @ replicate (32 - min (length (TextEncoder_encode s)) 31) 0
   \<and> ((\<forall>c\<in>set s. is_scalar_value c) \<and> length (TextEncoder_encode s) \<le> 31 \<longrightarrow>
        symbol_text (stringToFixedArray s 32) = filter (\<lambda>c. c \<noteq> 0) (strip_bom s))
   \<and> ((\<forall>c\<in>set s. is_scalar_value c \<and> c \<noteq> 0) \<and> length (TextEncoder_encode s) \<le> 31
        \<and> take 1 s \<noteq> [0xFEFF] \<longrightarrow>
        symbol_text (stringToFixedArray s 32) = s)"
proof (intro conjI impI)
  show "length (stringToFixedArray s 32) = 32" by (rule length_stringToFixedArray)
  show e: "stringToFixedArray s 32 =
        take 31 (TextEncoder_encode s) @ replicate (32 - min (length (TextEncoder_encode s)) 31) 0"
    by (simp add: stringToFixedArray_eq)
  {
    assume a: "(\<forall>c\<in>set s. is_scalar_value c) \<and> length (TextEncoder_encode s) \<le> 31"
    then have "stringToFixedArray s 32 =
        TextEncoder_encode s @ replicate (32 - length (TextEncoder_encode s)) 0"
      by (simp add: e min_def)
    then show "symbol_text (stringToFixedArray s 32) = filter (\<lambda>c. c \<noteq> 0) (strip_bom s)"
      using a by (simp add: symbol_text_encoded)
  }
  note general = this
  assume b: "(\<forall>c\<in>set s. is_scalar_value c \<and> c \<noteq> 0) \<and> length (TextEncoder_encode s) \<le> 31
        \<and> take 1 s \<noteq> [0xFEFF]"
  then have "strip_bom s = s" by (cases s) (simp_all add: strip_bom_def)
  moreover have "filter (\<lambda>c. c \<noteq> 0) s = s" using b by (simp add: filter_id_conv)
  ultimately show "symbol_text (stringToFixedArray s 32) = s"
    using general b by simp
qed

text \<open>
  The symbol U+FEFF, which is outside ASCII and three bytes long, comes back empty; the
  symbol A, NUL, B comes back as AB; and the byte \<open>0xFF\<close>, which is not UTF-8, is
  decoded to U+FFFD without any error.
\<close>

theorem symbol_counterexample:
  "symbol_text (stringToFixedArray [0xFEFF] 32) = []
   \<and> symbol_text (stringToFixedArray [0x41, 0, 0x42] 32) = [0x41, 0x42]
   \<and> symbol_text (255 # replicate 31 0) = [0xFFFD]"
proof -
  have e1: "TextEncoder_encode [0xFEFF] = [0xEF, 0xBB, 0xBF]"
    by (simp add: TextEncoder_encode_def scalar_value_def utf8_bytes_def)
  have e2: "TextEncoder_encode [0x41, 0, 0x42] = [0x41, 0, 0x42]"
    by (simp add: TextEncoder_encode_def scalar_value_def utf8_bytes_def)
  have a1: "stringToFixedArray [0xFEFF] 32 = TextEncoder_encode [0xFEFF] @ replicate 29 0"
    by (simp add: stringToFixedArray_eq e1)
  have a2: "stringToFixedArray [0x41, 0, 0x42] 32 = TextEncoder_encode [0x41, 0, 0x42] @ replicate 29 0"
    by (simp add: stringToFixedArray_eq e2)
  have "symbol_text (stringToFixedArray [0xFEFF] 32) = []"
    unfolding a1 by (subst symbol_text_encoded) (simp_all add: is_scalar_value_def strip_bom_def)
  moreover have "symbol_text (stringToFixedArray [0x41, 0, 0x42] 32) = [0x41, 0x42]"
    unfolding a2 by (subst symbol_text_encoded) (simp_all add: is_scalar_value_def strip_bom_def)
  moreover have "symbol_text (255 # replicate 31 0) = [0xFFFD]"
  proof -
    have "utf8_handler utf8_initial 255 = ([0xFFFD], utf8_initial)"
      by (simp add: utf8_handler_def utf8_lead_def utf8_initial_def)
    then have "utf8_run utf8_initial (map unat (255 # replicate 31 (0::byte))) = 0xFFFD # replicate 31 0"
      by (simp add: utf8_run_zeros)
    then show ?thesis
      by (simp add: symbol_text_def TextDecoder_decode_def strip_bom_def)
  qed
  ultimately show ?thesis by (intro conjI)
qed

theorem symbol_round_trip_witness:
  "symbol_text (stringToFixedArray [] 32) = []
   \<and> symbol_text (stringToFixedArray (replicate 31 0x41) 32) = replicate 31 0x41
   \<and> symbol_text (stringToFixedArray [0xE9, 0x20AC, 0x1F600] 32) = [0xE9, 0x20AC, 0x1F600]
   \<and> symbol_text (stringToFixedArray [0xFEFF, 0x41] 32) = filter (\<lambda>c. c \<noteq> 0) (strip_bom [0xFEFF, 0x41])"
proof -
  have h1: "(\<forall>c\<in>set ([]::nat list). is_scalar_value c \<and> c \<noteq> 0)
      \<and> length (TextEncoder_encode []) \<le> 31 \<and> take 1 ([]::nat list) \<noteq> [0xFEFF]"
    by (simp add: TextEncoder_encode_def)
  have h2: "(\<forall>c\<in>set (replicate 31 (0x41::nat)). is_scalar_value c \<and> c \<noteq> 0)
      \<and> length (TextEncoder_encode (replicate 31 0x41)) \<le> 31
      \<and> take 1 (replicate 31 (0x41::nat)) \<noteq> [0xFEFF]"
    by (simp add: ascii_encode is_scalar_value_def)
  have e3: "TextEncoder_encode [0xE9, 0x20AC, 0x1F600] =
      [0xC3, 0xA9, 0xE2, 0x82, 0xAC, 0xF0, 0x9F, 0x98, 0x80]"
    by (simp add: TextEncoder_encode_def scalar_value_def utf8_bytes_def)
  have h3: "(\<forall>c\<in>set [0xE9, 0x20AC, 0x1F600]. is_scalar_value c \<and> c \<noteq> 0)
      \<and> length (TextEncoder_encode [0xE9, 0x20AC, 0x1F600]) \<le> 31
      \<and> take 1 [0xE9, 0x20AC, 0x1F600::nat] \<noteq> [0xFEFF]"
    by (simp add: e3 is_scalar_value_def)
  have e4: "TextEncoder_encode [0xFEFF, 0x41] = [0xEF, 0xBB, 0xBF, 0x41]"
    by (simp add: TextEncoder_encode_def scalar_value_def utf8_bytes_def)
  have h4: "(\<forall>c\<in>set [0xFEFF, 0x41]. is_scalar_value c)
      \<and> length (TextEncoder_encode [0xFEFF, 0x41]) \<le> 31"
    by (simp add: e4 is_scalar_value_def)
  note t1 = symbol_round_trip [of "[]", THEN conjunct2, THEN conjunct2, THEN conjunct2, THEN mp, OF h1]
  note t2 = symbol_round_trip [of "replicate 31 0x41", THEN conjunct2, THEN conjunct2,
      THEN conjunct2, THEN mp, OF h2]
  note t3 = symbol_round_trip [of "[0xE9, 0x20AC, 0x1F600]", THEN conjunct2, THEN conjunct2,
      THEN conjunct2, THEN mp, OF h3]
  note t4 = symbol_round_trip [of "[0xFEFF, 0x41]", THEN conjunct2, THEN conjunct2,
      THEN conjunct1, THEN mp, OF h4]
  from t1 t2 t3 t4 show ?thesis by (intro conjI)
qed

subsection \<open>Decoding a position account\<close>

text \<open>
  Claim C7, as the code has it. The position record is
  \<open>PositionAccountData.size = 147\<close> bytes wide, not 139. Decoding a byte string
  shorter than 147 bytes fails, with the error of borsh for a buffer that is too small.
  A byte string of 147 bytes or more is decoded without error from its first 147
  bytes, and what follows them is ignored.
\<close>

theorem decode_by_length:
  "PositionAccountData_size = 147
   \<and> (length buf < PositionAccountData_size \<longrightarrow>
        deserializePositionAccount buf = Inl BorshBufferTooSmall)
   \<and> (PositionAccountData_size \<le> length buf \<longrightarrow>
        deserializePositionAccount buf = Inr (positionAccount_of (PositionAccountData_at buf))
        \<and> deserializePositionAccount buf =
            deserializePositionAccount (take PositionAccountData_size buf))"
  by (simp add: PositionAccountData_size_def deserialize_by_length PositionAccountData_at_take)

text \<open>
  A byte string of 148 zero bytes, which has neither 139 nor 147 bytes, is decoded.
\<close>

theorem decode_length_counterexample:
  "deserializePositionAccount (replicate 148 0) =
     Inr \<lparr>pos_owner = replicate 32 0, pos_market_mint = replicate 32 0,
          pos_market_symbol = [], pos_entry_price = 0, pos_liquidation_price = 0,
          pos_paid_amount = 0, pos_position_size = 0, pos_leverage = 0, pos_closed = 0,
          pos_position_nonce = 0, pos_direction = js ''SHORT''\<rparr>"
  by (rule zero_account) simp

theorem decode_by_length_witness:
  "length (replicate 139 (0::byte)) < PositionAccountData_size
   \<and> deserializePositionAccount (replicate 139 0) = Inl BorshBufferTooSmall
   \<and> PositionAccountData_size \<le> length (replicate 148 (0::byte))
   \<and> deserializePositionAccount (replicate 148 0) =
       deserializePositionAccount (take PositionAccountData_size (replicate 148 0))"
proof -
  have a: "length (replicate 139 (0::byte)) < PositionAccountData_size"
    and b: "PositionAccountData_size \<le> length (replicate 148 (0::byte))"
    by (simp_all add: PositionAccountData_size_def)
  note t1 = decode_by_length [of "replicate 139 0", THEN conjunct2, THEN conjunct1, rule_format, OF a]
  note t2 = decode_by_length [of "replicate 148 0", THEN conjunct2, THEN conjunct2, rule_format, OF b]
  from a t1 b t2 [THEN conjunct2] show ?thesis by (intro conjI)
qed

subsection \<open>Markets and positions\<close>

text \<open>
  Claim C4, as the code has it. The market listing holds exactly the accounts with an
  empty payload, in the order of the transport. The position listing takes every
  account whose payload is not empty, whatever its length, and decodes it. If one of
  them is shorter than 147 bytes, so also one of 139 bytes, the whole listing fails
  with the error of borsh; if all of them have 147 bytes or more, the listing without
  filter holds one position for each, read from its first 147 bytes.
\<close>

theorem account_classification:
  "map market_account (fst (getAllMarkets conn)) =
     map pubkey (filter (\<lambda>a. account_data a = []) (getProgramAccounts conn PROGRAM_ID))
   \<and> ((\<exists>a\<in>set (getProgramAccounts conn PROGRAM_ID).
          account_data a \<noteq> [] \<and> length (account_data a) < 147) \<longrightarrow>
        fst (getOpenPositions conn own_opt mint_opt ticker) = Inl BorshBufferTooSmall)
   \<and> ((\<forall>a\<in>set (getProgramAccounts conn PROGRAM_ID).
          account_data a = [] \<or> 147 \<le> length (account_data a)) \<longrightarrow>
        fst (getOpenPositions conn None None None) =
          Inr (map (\<lambda>a. positionAccount_of (PositionAccountData_at (account_data a)))
                 (filter (\<lambda>a. account_data a \<noteq> []) (getProgramAccounts conn PROGRAM_ID))))"
proof (intro conjI impI)
  show "map market_account (fst (getAllMarkets conn)) =
     map pubkey (filter (\<lambda>a. account_data a = []) (getProgramAccounts conn PROGRAM_ID))"
    by (simp add: getAllMarkets_def Let_def comp_def)
next
  assume "\<exists>a\<in>set (getProgramAccounts conn PROGRAM_ID).
          account_data a \<noteq> [] \<and> length (account_data a) < 147"
  then have "map_throwing (\<lambda>a. deserializePositionAccount (account_data a))
       (filter (\<lambda>a. account_data a \<noteq> []) (getProgramAccounts conn PROGRAM_ID))
     = Inl BorshBufferTooSmall"
    by (intro map_throwing_Inl) (auto simp: deserialize_by_length)
  then show "fst (getOpenPositions conn own_opt mint_opt ticker) = Inl BorshBufferTooSmall"
    by (simp add: listing_filtered [of conn own_opt mint_opt ticker] listing_unfiltered)
next
  assume "\<forall>a\<in>set (getProgramAccounts conn PROGRAM_ID).
          account_data a = [] \<or> 147 \<le> length (account_data a)"
  then have "map_throwing (\<lambda>a. deserializePositionAccount (account_data a))
       (filter (\<lambda>a. account_data a \<noteq> []) (getProgramAccounts conn PROGRAM_ID))
     = Inr (map (\<lambda>a. positionAccount_of (PositionAccountData_at (account_data a)))
                 (filter (\<lambda>a. account_data a \<noteq> []) (getProgramAccounts conn PROGRAM_ID)))"
    by (intro map_throwing_Inr) (auto simp: deserialize_by_length)
  then show "fst (getOpenPositions conn None None None) =
          Inr (map (\<lambda>a. positionAccount_of (PositionAccountData_at (account_data a)))
                 (filter (\<lambda>a. account_data a \<noteq> []) (getProgramAccounts conn PROGRAM_ID)))"
    by (simp add: listing_unfiltered)
qed

text \<open>
  An account of 139 bytes is not decoded as a position: it makes the listing fail. An
  account of 148 bytes is not left out: it is listed as a position.
\<close>

theorem classification_counterexample:
  "fst (getOpenPositions short_connection None None None) = Inl BorshBufferTooSmall
   \<and> fst (getOpenPositions long_connection None None None) =
       Inr [\<lparr>pos_owner = replicate 32 0, pos_market_mint = replicate 32 0,
             pos_market_symbol = [], pos_entry_price = 0, pos_liquidation_price = 0,
             pos_paid_amount = 0, pos_position_size = 0, pos_leverage = 0, pos_closed = 0,
             pos_position_nonce = 0, pos_direction = js ''SHORT''\<rparr>]"
proof -
  have "deserializePositionAccount (replicate 139 0) = Inl BorshBufferTooSmall"
    by (simp add: deserialize_by_length)
  then show ?thesis
    by (simp add: listing_unfiltered short_accounts long_accounts zero_account)
qed

theorem account_classification_witness:
  "map market_account (fst (getAllMarkets long_connection)) = [demo_key 7]
   \<and> fst (getOpenPositions short_connection None None None) = Inl BorshBufferTooSmall
   \<and> fst (getOpenPositions long_connection None None None) =
       Inr [positionAccount_of (PositionAccountData_at (replicate 148 0))]"
proof -
  have a: "\<exists>a\<in>set (getProgramAccounts short_connection PROGRAM_ID).
          account_data a \<noteq> [] \<and> length (account_data a) < 147"
    by (simp add: short_accounts)
  have b: "\<forall>a\<in>set (getProgramAccounts long_connection PROGRAM_ID).
          account_data a = [] \<or> 147 \<le> length (account_data a)"
    by (simp add: long_accounts)
  note t1 = account_classification [of long_connection, THEN conjunct1]
  note t2 = account_classification [of short_connection None None None,
      THEN conjunct2, THEN conjunct1, THEN mp, OF a]
  note t3 = account_classification [of long_connection,
      THEN conjunct2, THEN conjunct2, THEN mp, OF b]
  from t1 have "map market_account (fst (getAllMarkets long_connection)) = [demo_key 7]"
    by (simp add: long_accounts)
  moreover from t3 have "fst (getOpenPositions long_connection None None None) =
       Inr [positionAccount_of (PositionAccountData_at (replicate 148 0))]"
    by (simp add: long_accounts)
  ultimately show ?thesis using t2 by (intro conjI)
qed

subsection \<open>The filters of \<open>getOpenPositions\<close>\<close>

text \<open>
  Claim C5, as the code has it. When more than one of the owner, the mint and the
  ticker is supplied, no filter at all is applied: the call returns what the call
  without any filter returns. A filter is applied only when it is the one supplied:
  the owner or the mint by equality of the key, a ticker that is not empty by
  containment in the symbol, both in lower case.
\<close>

theorem filters_not_combined:
  "((own_opt \<noteq> None \<and> mint_opt \<noteq> None) \<or> (own_opt \<noteq> None \<and> truthy_str ticker)
      \<or> (mint_opt \<noteq> None \<and> truthy_str ticker) \<longrightarrow>
     getOpenPositions conn own_opt mint_opt ticker = getOpenPositions conn None None None)
   \<and> fst (getOpenPositions conn (Some k) None None) =
       map_sum id (filter (\<lambda>pos. pos_owner pos = k)) (fst (getOpenPositions conn None None None))
   \<and> fst (getOpenPositions conn None (Some k) None) =
       map_sum id (filter (\<lambda>pos. pos_market_mint pos = k)) (fst (getOpenPositions conn None None None))
   \<and> (t \<noteq> [] \<longrightarrow>
       fst (getOpenPositions conn None None (Some t)) =
       map_sum id (filter (\<lambda>pos. includes_str (toLowerCase (pos_market_symbol pos)) (toLowerCase t)))
         (fst (getOpenPositions conn None None None)))"
proof (intro conjI impI)
  assume "(own_opt \<noteq> None \<and> mint_opt \<noteq> None) \<or> (own_opt \<noteq> None \<and> truthy_str ticker)
      \<or> (mint_opt \<noteq> None \<and> truthy_str ticker)"
  then have "apply_filters own_opt mint_opt ticker = (\<lambda>ps. ps)"
    by (auto simp: apply_filters_def fun_eq_iff)
  moreover have "apply_filters None None None = (\<lambda>ps. ps)"
    by (simp add: apply_filters_def fun_eq_iff truthy_str_def)
  ultimately show "getOpenPositions conn own_opt mint_opt ticker = getOpenPositions conn None None None"
    by (simp add: getOpenPositions_def Let_def split: sum.split)
next
  show "fst (getOpenPositions conn (Some k) None None) =
       map_sum id (filter (\<lambda>pos. pos_owner pos = k)) (fst (getOpenPositions conn None None None))"
  proof -
    have "apply_filters (Some k) None None = filter (\<lambda>pos. pos_owner pos = k)"
      by (simp add: apply_filters_def fun_eq_iff truthy_str_def)
    then show ?thesis by (simp add: listing_filtered [of conn "Some k" None None])
  qed
  show "fst (getOpenPositions conn None (Some k) None) =
       map_sum id (filter (\<lambda>pos. pos_market_mint pos = k)) (fst (getOpenPositions conn None None None))"
  proof -
    have "apply_filters None (Some k) None = filter (\<lambda>pos. pos_market_mint pos = k)"
      by (simp add: apply_filters_def fun_eq_iff truthy_str_def)
    then show ?thesis by (simp add: listing_filtered [of conn None "Some k" None])
  qed
next
  assume "t \<noteq> []"
  then have "apply_filters None None (Some t) =
      filter (\<lambda>pos. includes_str (toLowerCase (pos_market_symbol pos)) (toLowerCase t))"
    by (simp add: apply_filters_def fun_eq_iff truthy_str_def)
  then show "fst (getOpenPositions conn None None (Some t)) =
       map_sum id (filter (\<lambda>pos. includes_str (toLowerCase (pos_market_symbol pos)) (toLowerCase t)))
         (fst (getOpenPositions conn None None None))"
    by (simp add: listing_filtered [of conn None None "Some t"])
qed

text \<open>
  Two positions, of which the first alone has the owner asked for and the second alone
  the mint asked for. With both filters supplied both positions are returned, which is
  the answer of neither filter.
\<close>

theorem filters_counterexample:
  "fst (getOpenPositions two_connection (Some (demo_key 1)) (Some (demo_key 4)) None) =
     Inr [\<lparr>pos_owner = demo_key 1, pos_market_mint = demo_key 2,
           pos_market_symbol = [], pos_entry_price = 0, pos_liquidation_price = 0,
           pos_paid_amount = 0, pos_position_size = 0, pos_leverage = 0, pos_closed = 0,
           pos_position_nonce = 0, pos_direction = js ''SHORT''\<rparr>,
          \<lparr>pos_owner = demo_key 3, pos_market_mint = demo_key 4,
           pos_market_symbol = [], pos_entry_price = 0, pos_liquidation_price = 0,
           pos_paid_amount = 0, pos_position_size = 0, pos_leverage = 0, pos_closed = 0,
           pos_position_nonce = 0, pos_direction = js ''SHORT''\<rparr>]
   \<and> fst (getOpenPositions two_connection (Some (demo_key 1)) None None) =
     Inr [\<lparr>pos_owner = demo_key 1, pos_market_mint = demo_key 2,
           pos_market_symbol = [], pos_entry_price = 0, pos_liquidation_price = 0,
           pos_paid_amount = 0, pos_position_size = 0, pos_leverage = 0, pos_closed = 0,
           pos_position_nonce = 0, pos_direction = js ''SHORT''\<rparr>]
   \<and> fst (getOpenPositions two_connection None (Some (demo_key 4)) None) =
     Inr [\<lparr>pos_owner = demo_key 3, pos_market_mint = demo_key 4,
           pos_market_symbol = [], pos_entry_price = 0, pos_liquidation_price = 0,
           pos_paid_amount = 0, pos_position_size = 0, pos_leverage = 0, pos_closed = 0,
           pos_position_nonce = 0, pos_direction = js ''SHORT''\<rparr>]"
proof -
  have d: "demo_key 3 \<noteq> demo_key 1" "demo_key 2 \<noteq> demo_key 4" by (simp_all add: demo_key_def)
  show ?thesis
    by (simp add: listing_filtered [of two_connection "Some (demo_key 1)" "Some (demo_key 4)" None]
        listing_filtered [of two_connection "Some (demo_key 1)" None None]
        listing_filtered [of two_connection None "Some (demo_key 4)" None]
        two_listing apply_filters_def truthy_str_def d)
qed

theorem filters_not_combined_witness:
  "getOpenPositions two_connection (Some (demo_key 1)) (Some (demo_key 4)) None
     = getOpenPositions two_connection None None None
   \<and> getOpenPositions two_connection None (Some (demo_key 4)) (Some (js ''sol''))
     = getOpenPositions two_connection None None None
   \<and> fst (getOpenPositions two_connection None None (Some (js ''sol''))) = Inr []"
proof -
  have a: "(Some (demo_key 1) \<noteq> None \<and> Some (demo_key 4) \<noteq> None)
      \<or> (Some (demo_key 1) \<noteq> None \<and> truthy_str None)
      \<or> (Some (demo_key 4) \<noteq> None \<and> truthy_str None)" by simp
  have b: "(None \<noteq> (None :: pubkey option) \<and> Some (demo_key 4) \<noteq> None)
      \<or> (None \<noteq> (None :: pubkey option) \<and> truthy_str (Some (js ''sol'')))
      \<or> (Some (demo_key 4) \<noteq> None \<and> truthy_str (Some (js ''sol'')))"
    by (simp add: truthy_str_def js_def)
  have c: "js ''sol'' \<noteq> []" by (simp add: js_def)
  note t1 = filters_not_combined [of "Some (demo_key 1)" "Some (demo_key 4)" None two_connection,
      THEN conjunct1, rule_format, OF a]
  note t2 = filters_not_combined [of None "Some (demo_key 4)" "Some (js ''sol'')" two_connection,
      THEN conjunct1, rule_format, OF b]
  note t3 = filters_not_combined [of None None None two_connection _ "js ''sol''",
      THEN conjunct2, THEN conjunct2, THEN conjunct2, rule_format, OF c]
  have "fst (getOpenPositions two_connection None None (Some (js ''sol''))) = Inr []"
    unfolding t3 two_listing by (simp add: js_def toLowerCase_def)
  with t1 t2 show ?thesis by (intro conjI)
qed

subsection \<open>Pagination of signatures\<close>

text \<open>
  Claim C8. Let the first two pages that the transport returns be full (100 entries),
  ordered from the newest to the oldest, with an oldest entry at or after the cutoff
  \<open>now - maxTimeSpan\<close> hours, and let the third page, of at most 100 entries and
  ordered likewise, be the first whose oldest entry precedes the cutoff; a page is asked
  for with \<open>before\<close> set to the last signature of the page before it. Then
  \<open>getAllSignaturesForMarket\<close> returns after exactly three fetches, with the first
  two pages and the entries of the third that are at or after the cutoff, and without
  those that precede it. Moreover, in every state of the loop, a page of fewer than 100
  entries ends the pagination with that fetch.
\<close>

theorem pagination_stops_at_cutoff:
  assumes acct: "acct = (if marketMintIsPDA then marketMint else getMarketAccount fpa marketMint)"
    and cutoff: "cutoff = cutoff_time now maxTimeSpan"
    and p1: "getSignaturesForAddress conn acct None = page_a"
      "length page_a = 100" "newest_first page_a" "cutoff \<le> blockTime_number (last page_a)"
      "signature (last page_a) \<noteq> []"
    and p2: "getSignaturesForAddress conn acct (Some (signature (last page_a))) = page_b"
      "length page_b = 100" "newest_first page_b" "cutoff \<le> blockTime_number (last page_b)"
      "signature (last page_b) \<noteq> []"
    and p3: "getSignaturesForAddress conn acct (Some (signature (last page_b))) = page_c"
      "page_c \<noteq> []" "length page_c \<le> 100" "newest_first page_c"
      "blockTime_number (last page_c) < cutoff"
  shows "getAllSignaturesForMarket fpa now conn marketMint maxTimeSpan marketMintIsPDA =
           Some (page_a @ page_b @ filter (\<lambda>sg. cutoff \<le> blockTime_number sg) page_c,
                 [GetSignaturesForAddress acct None,
                  GetSignaturesForAddress acct (Some (signature (last page_a))),
                  GetSignaturesForAddress acct (Some (signature (last page_b)))])
         \<and> (\<forall>before acc calls.
               length (getSignaturesForAddress conn acct (if truthy_str before then before else None)) < 100
               \<longrightarrow> signatures_loop conn acct cutoff before acc calls =
                 Some (acc @ takeWhile (\<lambda>sg. cutoff \<le> blockTime_number sg)
                               (getSignaturesForAddress conn acct
                                  (if truthy_str before then before else None)),
                       calls @ [GetSignaturesForAddress acct
                                  (if truthy_str before then before else None)]))"
proof (intro conjI allI impI)
  have ne1: "page_a \<noteq> []" and ne2: "page_b \<noteq> []" using p1(2) p2(2) by auto
  have a1: "\<forall>sg\<in>set page_a. cutoff \<le> blockTime_number sg"
    using newest_first_last [OF p1(3) ne1] p1(4) by fastforce
  have a2: "\<forall>sg\<in>set page_b. cutoff \<le> blockTime_number sg"
    using newest_first_last [OF p2(3) ne2] p2(4) by fastforce
  have t1: "truthy_str (Some (signature (last page_a)))" "truthy_str (Some (signature (last page_b)))"
    using p1(5) p2(5) by (simp_all add: truthy_str_def)
  have s3: "snd (scan_page cutoff page_c)"
    using scan_page_sorted [OF p3(4), of cutoff] p3(2,5) last_in_set [of page_c] by blast
  have f3: "fst (scan_page cutoff page_c) = filter (\<lambda>sg. cutoff \<le> blockTime_number sg) page_c"
    using scan_page_sorted [OF p3(4), of cutoff] by simp
  have "signatures_loop conn acct cutoff None [] [] =
      signatures_loop conn acct cutoff (Some (signature (last page_a))) ([] @ page_a)
        ([] @ [GetSignaturesForAddress acct None])"
    by (rule loop_continue [OF _ p1(1) a1]) (simp_all add: truthy_str_def p1(2))
  also have "\<dots> = signatures_loop conn acct cutoff (Some (signature (last page_b)))
        (([] @ page_a) @ page_b)
        (([] @ [GetSignaturesForAddress acct None])
           @ [GetSignaturesForAddress acct (Some (signature (last page_a)))])"
    by (rule loop_continue [OF _ p2(1) a2]) (simp_all add: t1 p2(2))
  also have "\<dots> = Some ((([] @ page_a) @ page_b)
          @ fst (scan_page cutoff (getSignaturesForAddress conn acct (Some (signature (last page_b))))),
        (([] @ [GetSignaturesForAddress acct None])
           @ [GetSignaturesForAddress acct (Some (signature (last page_a)))])
           @ [GetSignaturesForAddress acct (Some (signature (last page_b)))])"
    by (rule loop_stop) (simp_all add: t1 p3(1) s3)
  finally have loop: "signatures_loop conn acct cutoff None [] [] =
      Some (page_a @ page_b @ filter (\<lambda>sg. cutoff \<le> blockTime_number sg) page_c,
                 [GetSignaturesForAddress acct None,
                  GetSignaturesForAddress acct (Some (signature (last page_a))),
                  GetSignaturesForAddress acct (Some (signature (last page_b)))])"
    by (simp add: p3(1) f3)
  have top: "getAllSignaturesForMarket fpa now conn marketMint maxTimeSpan marketMintIsPDA =
      signatures_loop conn acct cutoff None [] []"
    by (cases marketMintIsPDA) (simp_all add: getAllSignaturesForMarket_def acct cutoff)
  show "getAllSignaturesForMarket fpa now conn marketMint maxTimeSpan marketMintIsPDA =
           Some (page_a @ page_b @ filter (\<lambda>sg. cutoff \<le> blockTime_number sg) page_c,
                 [GetSignaturesForAddress acct None,
                  GetSignaturesForAddress acct (Some (signature (last page_a))),
                  GetSignaturesForAddress acct (Some (signature (last page_b)))])"
    unfolding top by (rule loop)
next
  fix before acc calls
  assume "length (getSignaturesForAddress conn acct (if truthy_str before then before else None)) < 100"
  then show "signatures_loop conn acct cutoff before acc calls =
                 Some (acc @ takeWhile (\<lambda>sg. cutoff \<le> blockTime_number sg)
                               (getSignaturesForAddress conn acct
                                  (if truthy_str before then before else None)),
                       calls @ [GetSignaturesForAddress acct
                                  (if truthy_str before then before else None)])"
    by (simp add: loop_stop [OF refl] scan_page_takeWhile)
qed

theorem pagination_stops_at_cutoff_witness:
  "getAllSignaturesForMarket demo_derivation 10000000 paged_connection (demo_key 5) 2 True =
     Some (page_of ''a'' 5000 100 @ page_of ''b'' 4000 100 @ page_of ''c'' 3000 1,
           [GetSignaturesForAddress (demo_key 5) None,
            GetSignaturesForAddress (demo_key 5) (Some (js ''a'')),
            GetSignaturesForAddress (demo_key 5) (Some (js ''b''))])
   \<and> signatures_loop paged_connection (demo_key 5) 2800 (Some (js ''b'')) [] [] =
       Some (page_of ''c'' 3000 1, [GetSignaturesForAddress (demo_key 5) (Some (js ''b''))])"
proof -
  let ?p1 = "page_of ''a'' 5000 100" and ?p2 = "page_of ''b'' 4000 100"
  let ?p3 = "page_of ''c'' 3000 1 @ page_of ''d'' 1000 1 @ page_of ''e'' 900 1"
  have l1: "last ?p1 = \<lparr>signature = js ''a'', blockTime = Some 5000\<rparr>"
    and l2: "last ?p2 = \<lparr>signature = js ''b'', blockTime = Some 4000\<rparr>"
    by (simp_all add: page_of_facts)
  have l3: "last ?p3 = \<lparr>signature = js ''e'', blockTime = Some 900\<rparr>"
    by (simp add: page_of_def)
  have c: "(2800::int) = cutoff_time 10000000 2" by (simp add: cutoff_time_def)
  have g1: "getSignaturesForAddress paged_connection (demo_key 5) None = ?p1"
    by (simp add: paged_connection_def)
  have g2: "getSignaturesForAddress paged_connection (demo_key 5) (Some (signature (last ?p1))) = ?p2"
    by (simp add: paged_connection_def l1)
  have g3: "getSignaturesForAddress paged_connection (demo_key 5) (Some (signature (last ?p2))) = ?p3"
    by (simp add: paged_connection_def l2 js_def)
  have n3: "newest_first ?p3" by (simp add: page_of_def newest_first_def blockTime_number_def)
  have a: "demo_key 5 = (if True then demo_key 5 else getMarketAccount demo_derivation (demo_key 5))"
    by simp
  have h1: "length ?p1 = 100" "newest_first ?p1" "2800 \<le> blockTime_number (last ?p1)"
    "signature (last ?p1) \<noteq> []"
    by (simp_all add: page_of_facts l1 blockTime_number_def js_def)
  have h2: "length ?p2 = 100" "newest_first ?p2" "2800 \<le> blockTime_number (last ?p2)"
    "signature (last ?p2) \<noteq> []"
    by (simp_all add: page_of_facts l2 blockTime_number_def js_def)
  have h3: "?p3 \<noteq> []" "length ?p3 \<le> 100" "blockTime_number (last ?p3) < 2800"
    unfolding l3 by (simp_all add: page_of_def blockTime_number_def)
  note t = pagination_stops_at_cutoff [THEN conjunct1, OF a c g1 h1 g2 h2 g3 h3(1,2) n3 h3(3)]
  have f: "filter (\<lambda>sg. 2800 \<le> blockTime_number sg) ?p3 = page_of ''c'' 3000 1"
    by (simp add: page_of_def blockTime_number_def)
  have tr: "truthy_str (Some (js ''b''))" by (simp add: truthy_str_def js_def)
  have sh: "length (getSignaturesForAddress paged_connection (demo_key 5)
                (if truthy_str (Some (js ''b'')) then Some (js ''b'') else None)) < 100"
    using g3 by (simp add: tr l2 page_of_def)
  have tw: "takeWhile (\<lambda>sg. 2800 \<le> blockTime_number sg) ?p3 = page_of ''c'' 3000 1"
    by (simp add: page_of_def blockTime_number_def)
  note u = pagination_stops_at_cutoff [THEN conjunct2, rule_format,
      OF a c g1 h1 g2 h2 g3 h3(1,2) n3 h3(3) sh, of "[]" "[]"]
  have "signatures_loop paged_connection (demo_key 5) 2800 (Some (js ''b'')) [] [] =
       Some (page_of ''c'' 3000 1, [GetSignaturesForAddress (demo_key 5) (Some (js ''b''))])"
    using u g3 by (simp add: tr l2 page_of_def blockTime_number_def)
  moreover have "getAllSignaturesForMarket demo_derivation 10000000 paged_connection (demo_key 5) 2 True =
     Some (page_of ''a'' 5000 100 @ page_of ''b'' 4000 100 @ page_of ''c'' 3000 1,
           [GetSignaturesForAddress (demo_key 5) None,
            GetSignaturesForAddress (demo_key 5) (Some (js ''a'')),
            GetSignaturesForAddress (demo_key 5) (Some (js ''b''))])"
    using t unfolding f l1 l2 by simp
  ultimately show ?thesis by (intro conjI)
qed

subsection \<open>The position address\<close>

text \<open>
  Claim C9. The address derivation is a function of its seeds and of the program, so
  two evaluations on the same seeds give the same address. Both builders give it the
  same seeds: the bytes of \<open>uranus_position\<close>, the bytes of the owner and the 8
  little-endian bytes of the nonce, in this order. Hence, when
  \<open>createUranusPositionTransaction\<close> succeeds, the address it returns, which is also
  the third account of its instruction, is the address that \<open>closeUranusPosition\<close>
  derives from the same owner and the returned nonce (not 0, see claim C10) when no
  address is passed, and that call succeeds.
\<close>

theorem position_address_shared:
  assumes "createUranusPositionTransaction fpa now conn own_opt mint_opt lamps lev dir = (Inr r, calls)"
    and "positionNonce r \<noteq> 0"
  shows "\<exists>own. own_opt = Some own
     \<and> positionPda r =
         fpa [TextEncoder_encode (js ''uranus_position''), own, le_bytes 8 \<bar>positionNonce r\<bar>] PROGRAM_ID
     \<and> map meta_pubkey (keys (hd (instructions (open_transaction r)))) ! 2 = positionPda r
     \<and> closeUranusPosition fpa conn' (positionNonce r) own_opt None =
         (Inr \<lparr>instructions =
                 [close_instruction (positionPda r) own
                    (serialize_ClosePositionData
                       \<lparr>close_position = True, close_position_nonce = positionNonce r\<rparr>)],
               feePayer = own, recentBlockhash = getLatestBlockhash conn'\<rparr>,
          [GetLatestBlockhash])"
proof -
  from create_Inr [OF assms(1)] obtain own mint f and md :: metadata where
    o: "own_opt = Some own" and n: "\<bar>now\<bar> < 2 ^ 53"
    and r: "r = open_value fpa now conn own mint (symbol md) f lev dir" by blast
  have pn: "positionNonce r = now" and pda: "positionPda r =
      fpa (position_seeds own (le_bytes 8 \<bar>now\<bar>)) PROGRAM_ID"
    by (simp_all add: r open_value_def)
  have n8: "\<bar>now\<bar> < 256 ^ 8" using n by simp
  have "closeUranusPosition fpa conn' now (Some own) None =
         (Inr \<lparr>instructions =
                 [close_instruction (positionPda r) own
                    (serialize_ClosePositionData
                       \<lparr>close_position = True, close_position_nonce = now\<rparr>)],
               feePayer = own, recentBlockhash = getLatestBlockhash conn'\<rparr>,
          [GetLatestBlockhash])"
    using assms(2) n n8 unfolding pn pda
    by (simp add: closeUranusPosition_def BN_of_number_def BN_toArray_le_def)
  moreover have "map meta_pubkey (keys (hd (instructions (open_transaction r)))) ! 2 = positionPda r"
    by (simp add: r open_value_def open_instruction_def)
  ultimately show ?thesis using o pn pda by (simp add: position_seeds_def)
qed

theorem position_address_shared_witness:
  "positionPda (open_value demo_derivation 1700000000000 demo_connection (demo_key 1) (demo_key 2)
            (js ''SOL'')
            \<lparr>basePaidAmount = 1000000000, percentageFee = 23000000, accountFee = 1858320\<rparr>
            3 (js ''long''))
     = demo_derivation [TextEncoder_encode (js ''uranus_position''), demo_key 1,
                        le_bytes 8 1700000000000] PROGRAM_ID
   \<and> closeUranusPosition demo_derivation demo_connection 1700000000000 (Some (demo_key 1)) None =
       (Inr \<lparr>instructions =
               [close_instruction
                  (demo_derivation [TextEncoder_encode (js ''uranus_position''), demo_key 1,
                                    le_bytes 8 1700000000000] PROGRAM_ID)
                  (demo_key 1)
                  (serialize_ClosePositionData
                     \<lparr>close_position = True, close_position_nonce = 1700000000000\<rparr>)],
             feePayer = demo_key 1, recentBlockhash = js ''blockhash''\<rparr>,
        [GetLatestBlockhash])"
proof -
  let ?R = "open_value demo_derivation 1700000000000 demo_connection (demo_key 1) (demo_key 2)
            (js ''SOL'')
            \<lparr>basePaidAmount = 1000000000, percentageFee = 23000000, accountFee = 1858320\<rparr>
            3 (js ''long'')"
  let ?C = "[GetParsedAccountInfo (getMetadataPDA demo_derivation (demo_key 2)),
      GetMinimumBalanceForRentExemption 147, GetLatestBlockhash]"
  have run: "createUranusPositionTransaction demo_derivation 1700000000000 demo_connection
      (Some (demo_key 1)) (Some (demo_key 2)) 1000000000 3 (js ''long'') = (Inr ?R, ?C)"
    using demo_create [of "js ''long''" 3] by (simp add: js_def)
  have n: "positionNonce ?R \<noteq> 0" by (simp add: open_value_def)
  have g: "getLatestBlockhash demo_connection = js ''blockhash''"
    by (simp add: demo_connection_def)
  from position_address_shared [OF run n, of demo_connection]
  show ?thesis by (simp add: open_value_def g)
qed

subsection \<open>The nonce of \<open>closeUranusPosition\<close>\<close>

text \<open>
  Claim C10. With the nonce 0, \<open>closeUranusPosition\<close> throws
  \<open>"Missing required parameters"\<close>, whatever the other arguments, and makes no remote
  call and no instruction: \<open>!positionNonce\<close> holds of the number 0.
\<close>

theorem close_zero_nonce:
  "closeUranusPosition fpa conn 0 own_opt pda_opt = (Inl MissingRequiredParameters, [])"
  by (simp add: closeUranusPosition_def split: option.split)

end
